theory Spec2Isabelle
  imports Complex_Main
begin

section \<open>The Python values the plugin computes with\<close>

text \<open>
  Exceptions are values. Nothing in the plugin's rule engine catches an exception, so a
  raise anywhere is the result of the whole call. \<^verbatim>\<open>binascii_Error\<close> is what
  \<^verbatim>\<open>base64.b64decode\<close> raises, \<^verbatim>\<open>RecursionError\<close> what the interpreter raises when the
  call stack is exhausted.
\<close>

datatype error =
  TypeError | ValueError | KeyError | IndexError | OverflowError | AssertionError
  | binascii_Error | UnicodeDecodeError | RecursionError

fun bindE :: "error + 'a \<Rightarrow> ('a \<Rightarrow> error + 'b) \<Rightarrow> error + 'b" where
  "bindE (Inl e) f = Inl e"
| "bindE (Inr x) f = f x"

text \<open>
  A Python float: a finite value, an infinity or NaN. Finite doubles are rationals; the
  model allows every rational and does not round. Comparisons follow IEEE 754: every
  ordered comparison with NaN is false.
\<close>

datatype pyfloat = Fin rat | PInf | NInf | NaN

fun float_le :: "pyfloat \<Rightarrow> pyfloat \<Rightarrow> bool" where
  "float_le NaN b = False"
| "float_le a NaN = False"
| "float_le NInf b = True"
| "float_le a PInf = True"
| "float_le (Fin x) (Fin y) = (x \<le> y)"
| "float_le a b = False"

fun float_lt :: "pyfloat \<Rightarrow> pyfloat \<Rightarrow> bool" where
  "float_lt NaN b = False"
| "float_lt a NaN = False"
| "float_lt PInf b = False"
| "float_lt a NInf = False"
| "float_lt (Fin x) (Fin y) = (x < y)"
| "float_lt a b = True"

text \<open>
  What \<^verbatim>\<open>json.loads\<close> returns: \<^verbatim>\<open>None\<close>, a bool, an int (unbounded), a float, a str,
  a list or a dict with str keys. A dict is an association list read with
  \<^const>\<open>map_of\<close>.
\<close>

datatype json =
  JNull | JBool bool | JInt int | JFloat pyfloat | JStr string
  | JArr "json list" | JObj "(string \<times> json) list"

text \<open>
  \<^verbatim>\<open>JsonHelper.get\<close> returns either a value of the document or the tuple
  \<^verbatim>\<open>(None, 'not_found')\<close>, which no document contains.
\<close>

datatype lookup = Found json | NotFound

text \<open>Truth value testing (\<^verbatim>\<open>if temp_data:\<close>).\<close>

fun truthy :: "json \<Rightarrow> bool" where
  "truthy JNull = False"
| "truthy (JBool b) = b"
| "truthy (JInt i) = (i \<noteq> 0)"
| "truthy (JFloat f) = (f \<noteq> Fin 0)"
| "truthy (JStr s) = (s \<noteq> [])"
| "truthy (JArr xs) = (xs \<noteq> [])"
| "truthy (JObj kvs) = (kvs \<noteq> [])"

text \<open>
  The parts of the Python runtime that the plugin calls and that are no code of the
  plugin: conversions between str, int and float, the \<^verbatim>\<open>repr\<close> of a str,
  \<^verbatim>\<open>base64.b64decode(v).decode()\<close>, and the depth of nested \<^verbatim>\<open>get\<close> calls the
  interpreter's stack allows. They are parameters of the model; \<^verbatim>\<open>None\<close> stands for the
  exception the conversion raises.
\<close>

record pyenv =
  float_of_str :: "string \<Rightarrow> pyfloat option"
  float_of_int :: "int \<Rightarrow> pyfloat option"
  int_of_str :: "string \<Rightarrow> int option"
  str_of_float :: "pyfloat \<Rightarrow> string"
  repr_of_str :: "string \<Rightarrow> string"
  b64decode :: "string \<Rightarrow> error + string"
  recursion_limit :: nat

subsection \<open>str methods\<close>

definition startswith :: "string \<Rightarrow> string \<Rightarrow> bool" where
  "startswith s p = (take (length p) s = p)"

text \<open>\<^verbatim>\<open>s.find(sub)\<close>: the lowest index where \<^verbatim>\<open>sub\<close> occurs in \<^verbatim>\<open>s\<close>, or \<^verbatim>\<open>-1\<close>.\<close>

fun find_from :: "string \<Rightarrow> string \<Rightarrow> nat \<Rightarrow> int" where
  "find_from [] sub i = (if sub = [] then int i else - 1)"
| "find_from (c # cs) sub i =
     (if startswith (c # cs) sub then int i else find_from cs sub (Suc i))"

definition find_str :: "string \<Rightarrow> string \<Rightarrow> int" where
  "find_str s sub = find_from s sub 0"

text \<open>
  Slicing with Python's treatment of bounds: a negative bound counts from the end, and
  bounds are clipped to the string.
\<close>

definition clip :: "nat \<Rightarrow> int \<Rightarrow> nat" where
  "clip n i = (if i < 0 then nat (int n + i) else min n (nat i))"

definition slice :: "string \<Rightarrow> int \<Rightarrow> int \<Rightarrow> string" where
  "slice s i j = drop (clip (length s) i) (take (clip (length s) j) s)"

definition slice_to :: "string \<Rightarrow> int \<Rightarrow> string" where
  "slice_to s j = take (clip (length s) j) s"

definition slice_from :: "string \<Rightarrow> int \<Rightarrow> string" where
  "slice_from s i = drop (clip (length s) i) s"

text \<open>\<^verbatim>\<open>s.split(c)\<close> for a one-character separator, and \<^verbatim>\<open>s.split(c, 1)\<close>.\<close>

fun split_chr :: "char \<Rightarrow> string \<Rightarrow> string list" where
  "split_chr c [] = [[]]"
| "split_chr c (x # xs) =
     (if x = c then [] # split_chr c xs
      else (case split_chr c xs of
              [] \<Rightarrow> [[x]]
            | w # ws \<Rightarrow> (x # w) # ws))"

fun split_chr1 :: "char \<Rightarrow> string \<Rightarrow> string list" where
  "split_chr1 c [] = [[]]"
| "split_chr1 c (x # xs) =
     (if x = c then [[], xs]
      else (case split_chr1 c xs of
              [] \<Rightarrow> [[x]]
            | w # ws \<Rightarrow> (x # w) # ws))"

text \<open>\<^verbatim>\<open>k.isdecimal()\<close> and \<^verbatim>\<open>int(k)\<close> for such a \<^verbatim>\<open>k\<close>, on ASCII digits.\<close>

definition is_digit :: "char \<Rightarrow> bool" where
  "is_digit c = (c \<in> set ''0123456789'')"

definition isdecimal :: "string \<Rightarrow> bool" where
  "isdecimal s = (s \<noteq> [] \<and> list_all is_digit s)"

definition digit_val :: "char \<Rightarrow> nat" where
  "digit_val c = of_char c - of_char CHR ''0''"

definition int_of_decimal :: "string \<Rightarrow> nat" where
  "int_of_decimal s = foldl (\<lambda>a c. 10 * a + digit_val c) 0 s"

text \<open>\<^verbatim>\<open>str(i)\<close> for an int.\<close>

definition digit_chr :: "nat \<Rightarrow> char" where
  "digit_chr d = ''0123456789'' ! d"

fun str_nat :: "nat \<Rightarrow> string" where
  "str_nat n = (if n < 10 then [digit_chr n] else str_nat (n div 10) @ [digit_chr (n mod 10)])"

declare str_nat.simps [simp del]

definition str_int :: "int \<Rightarrow> string" where
  "str_int i = (if i < 0 then CHR ''-'' # str_nat (nat (- i)) else str_nat (nat i))"

text \<open>\<^verbatim>\<open>s.lower()\<close> on ASCII letters.\<close>

definition lower_chr :: "char \<Rightarrow> char" where
  "lower_chr c =
     (case map_of (zip ''ABCDEFGHIJKLMNOPQRSTUVWXYZ'' ''abcdefghijklmnopqrstuvwxyz'') c of
        None \<Rightarrow> c
      | Some l \<Rightarrow> l)"

definition lower :: "string \<Rightarrow> string" where
  "lower s = map lower_chr s"

subsection \<open>Operations on document values\<close>

text \<open>
  \<^verbatim>\<open>key in data\<close> for a str \<^verbatim>\<open>key\<close>: a key of a dict, an element of a list, a
  substring of a str; any other \<^verbatim>\<open>data\<close> is not iterable.
\<close>

fun contains :: "json \<Rightarrow> string \<Rightarrow> error + bool" where
  "contains (JObj kvs) k = Inr (k \<in> set (map fst kvs))"
| "contains (JArr xs) k = Inr (JStr k \<in> set xs)"
| "contains (JStr s) k = Inr (find_str s k \<noteq> - 1)"
| "contains d k = Inl TypeError"

text \<open>\<^verbatim>\<open>data[key]\<close> for a str \<^verbatim>\<open>key\<close>: only a dict can be indexed by a str.\<close>

fun getitem_str :: "json \<Rightarrow> string \<Rightarrow> error + json" where
  "getitem_str (JObj kvs) k = (case map_of kvs k of None \<Rightarrow> Inl KeyError | Some v \<Rightarrow> Inr v)"
| "getitem_str d k = Inl TypeError"

text \<open>
  \<^verbatim>\<open>data[i]\<close> for an int \<^verbatim>\<open>i \<ge> 0\<close>: an element of a list, a character of a str;
  a dict of a JSON document has no int key.
\<close>

fun getitem_int :: "json \<Rightarrow> nat \<Rightarrow> error + json" where
  "getitem_int (JArr xs) i = (if i < length xs then Inr (xs ! i) else Inl IndexError)"
| "getitem_int (JStr s) i = (if i < length s then Inr (JStr [s ! i]) else Inl IndexError)"
| "getitem_int (JObj kvs) i = Inl KeyError"
| "getitem_int d i = Inl TypeError"

fun py_len :: "json \<Rightarrow> error + nat" where
  "py_len (JArr xs) = Inr (length xs)"
| "py_len (JStr s) = Inr (length s)"
| "py_len (JObj kvs) = Inr (length (remdups (map fst kvs)))"
| "py_len d = Inl TypeError"

text \<open>
  \<^verbatim>\<open>float(x)\<close> and \<^verbatim>\<open>int(x)\<close>. \<^verbatim>\<open>int\<close> of a float truncates towards zero. The tuple
  \<^verbatim>\<open>(None, 'not_found')\<close> converts to neither.
\<close>

fun py_float :: "pyenv \<Rightarrow> json \<Rightarrow> error + pyfloat" where
  "py_float env (JInt i) = (case float_of_int env i of None \<Rightarrow> Inl OverflowError | Some f \<Rightarrow> Inr f)"
| "py_float env (JFloat f) = Inr f"
| "py_float env (JStr s) = (case float_of_str env s of None \<Rightarrow> Inl ValueError | Some f \<Rightarrow> Inr f)"
| "py_float env (JBool b) = Inr (Fin (if b then 1 else 0))"
| "py_float env d = Inl TypeError"

fun float_lookup :: "pyenv \<Rightarrow> lookup \<Rightarrow> error + pyfloat" where
  "float_lookup env (Found v) = py_float env v"
| "float_lookup env NotFound = Inl TypeError"

fun py_int :: "pyenv \<Rightarrow> json \<Rightarrow> error + int" where
  "py_int env (JInt i) = Inr i"
| "py_int env (JBool b) = Inr (if b then 1 else 0)"
| "py_int env (JFloat (Fin q)) = Inr (if 0 \<le> q then \<lfloor>q\<rfloor> else \<lceil>q\<rceil>)"
| "py_int env (JFloat NaN) = Inl ValueError"
| "py_int env (JFloat f) = Inl OverflowError"
| "py_int env (JStr s) = (case int_of_str env s of None \<Rightarrow> Inl ValueError | Some i \<Rightarrow> Inr i)"
| "py_int env d = Inl TypeError"

fun int_lookup :: "pyenv \<Rightarrow> lookup \<Rightarrow> error + int" where
  "int_lookup env (Found v) = py_int env v"
| "int_lookup env NotFound = Inl TypeError"

text \<open>
  \<^verbatim>\<open>str(x)\<close> and \<^verbatim>\<open>repr(x)\<close>. They differ on a str only; the elements of a list and
  the keys and values of a dict are shown by \<^verbatim>\<open>repr\<close>.
\<close>

fun join :: "string \<Rightarrow> string list \<Rightarrow> string" where
  "join sep [] = []"
| "join sep [x] = x"
| "join sep (x # y # ys) = x @ sep @ join sep (y # ys)"

fun py_repr :: "pyenv \<Rightarrow> json \<Rightarrow> string" where
  "py_repr env JNull = ''None''"
| "py_repr env (JBool b) = (if b then ''True'' else ''False'')"
| "py_repr env (JInt i) = str_int i"
| "py_repr env (JFloat f) = str_of_float env f"
| "py_repr env (JStr s) = repr_of_str env s"
| "py_repr env (JArr xs) = ''['' @ join '', '' (map (py_repr env) xs) @ '']''"
| "py_repr env (JObj kvs) =
     ''{'' @ join '', '' (map (\<lambda>kv. repr_of_str env (fst kv) @ '': '' @ py_repr env (snd kv)) kvs)
     @ ''}''"

definition py_str :: "pyenv \<Rightarrow> json \<Rightarrow> string" where
  "py_str env v = (case v of JStr s \<Rightarrow> s | _ \<Rightarrow> py_repr env v)"

fun str_lookup :: "pyenv \<Rightarrow> lookup \<Rightarrow> string" where
  "str_lookup env (Found v) = py_str env v"
| "str_lookup env NotFound = ''(None, '' @ repr_of_str env ''not_found'' @ '')''"

section \<open>TypeHelper\<close>

text \<open>
  \<^verbatim>\<open>get_size\<close>: the loop leaves \<^verbatim>\<open>factor, suffix\<close> at the first entry with
  \<^verbatim>\<open>b >= factor\<close>, or at the last entry when there is none. The true division
  \<^verbatim>\<open>b/factor\<close> is taken exactly, so that \<^verbatim>\<open>int(b/factor)\<close> is the quotient truncated
  towards zero.
\<close>

fun select_unit :: "int \<Rightarrow> (int \<times> string) list \<Rightarrow> int \<times> string \<Rightarrow> int \<times> string" where
  "select_unit b [] cur = cur"
| "select_unit b ((factor, suffix) # rest) cur =
     (if b \<ge> factor then (factor, suffix) else select_unit b rest (factor, suffix))"

definition trunc_div :: "int \<Rightarrow> int \<Rightarrow> int" where
  "trunc_div b f = (if (0 \<le> b) = (0 < f) then \<bar>b\<bar> div \<bar>f\<bar> else - (\<bar>b\<bar> div \<bar>f\<bar>))"

definition get_size :: "int \<Rightarrow> (int \<times> string) list \<Rightarrow> string" where
  "get_size b system =
     (case select_unit b system (0, []) of
        (factor, suffix) \<Rightarrow> str_int (trunc_div b factor) @ suffix)"

definition size_system :: "(int \<times> string) list" where
  "size_system =
     [(1024 ^ 5, '' PiB''), (1024 ^ 4, '' TiB''), (1024 ^ 3, '' GiB''),
      (1024 ^ 2, '' MiB''), (1024 ^ 1, '' KiB''), (1024 ^ 0, '' bytes'')]"

definition si_system :: "(int \<times> string) list" where
  "si_system =
     [(1000 ^ 5, ''P''), (1000 ^ 4, ''T''), (1000 ^ 3, ''G''),
      (1000 ^ 2, ''M''), (1000 ^ 1, ''K''), (1000 ^ 0, ''B'')]"

definition TypeHelper :: "pyenv \<Rightarrow> lookup \<Rightarrow> string \<Rightarrow> error + string" where
  "TypeHelper env v field_type =
     (if field_type = ''size'' then bindE (int_lookup env v) (\<lambda>b. Inr (get_size b size_system))
      else if lower field_type = ''si'' then bindE (int_lookup env v) (\<lambda>b. Inr (get_size b si_system))
      else if field_type \<noteq> ''str'' then Inl AssertionError
      else Inr (str_lookup env v))"

section \<open>JsonHelper: path resolution\<close>

record JsonHelper =
  data :: json
  separator :: string

definition arrayOpener :: string where "arrayOpener = ''(''"
definition arrayCloser :: string where "arrayCloser = '')''"

text \<open>
  \<^verbatim>\<open>getSubElement\<close> and \<^verbatim>\<open>getSubArrayElement\<close> call back into \<^verbatim>\<open>self.get\<close>; the
  argument \<open>g\<close> is that call.
\<close>

definition getSubElement ::
  "(string \<Rightarrow> json \<Rightarrow> error + lookup) \<Rightarrow> string \<Rightarrow> string \<Rightarrow> json \<Rightarrow> error + lookup" where
  "getSubElement g sep key d =
     (let separatorIndex = find_str key sep;
          partialKey = slice_to key separatorIndex;
          remainingKey = slice_from key (separatorIndex + 1)
      in bindE (contains d partialKey) (\<lambda>present.
           if present then bindE (getitem_str d partialKey) (\<lambda>child. g remainingKey child)
           else Inr NotFound))"

text \<open>
  The search loop of \<^verbatim>\<open>getSubArrayElement\<close>: \<^verbatim>\<open>for i in range(len(data))\<close>, from
  index \<open>i\<close> with \<open>m\<close> iterations left. It stops at the first element whose \<^verbatim>\<open>n\<close>
  resolves to something that prints as \<^verbatim>\<open>v\<close>; \<^verbatim>\<open>None\<close> when the loop ends without one.
\<close>

fun search_loop ::
  "pyenv \<Rightarrow> (string \<Rightarrow> json \<Rightarrow> error + lookup) \<Rightarrow> string \<Rightarrow> string \<Rightarrow> json \<Rightarrow> nat \<Rightarrow> nat
   \<Rightarrow> error + nat option" where
  "search_loop env g n v d i 0 = Inr None"
| "search_loop env g n v d i (Suc m) =
     bindE (getitem_int d i) (\<lambda>elem.
     bindE (g n elem) (\<lambda>r.
       if str_lookup env r = v then Inr (Some i)
       else search_loop env g n v d (Suc i) m))"

text \<open>
  The first half of \<^verbatim>\<open>getSubArrayElement\<close>: the index that the text \<^verbatim>\<open>k\<close> between
  the brackets stands for; \<^verbatim>\<open>None\<close> where the source returns
  \<^verbatim>\<open>(None, 'not_found')\<close> because the search found no element.
\<close>

definition resolve_index ::
  "pyenv \<Rightarrow> (string \<Rightarrow> json \<Rightarrow> error + lookup) \<Rightarrow> string \<Rightarrow> json \<Rightarrow> error + nat option" where
  "resolve_index env g k d =
     (if \<not> isdecimal k then
        (case split_chr1 CHR ''='' k of
           [n, v] \<Rightarrow>
             bindE (b64decode env v) (\<lambda>v'.
             bindE (py_len d) (\<lambda>len.
               search_loop env g n v' d 0 len))
         | _ \<Rightarrow> Inl ValueError)
      else Inr (Some (int_of_decimal k)))"

text \<open>
  \<^verbatim>\<open>remainingKey\<close>: what follows the first \<^verbatim>\<open>")" + separator\<close> of the whole key,
  two characters after where it starts; when the key has none, what follows the first
  \<^verbatim>\<open>")"\<close>.
\<close>

definition remaining_key :: "string \<Rightarrow> string \<Rightarrow> string" where
  "remaining_key sep key =
     (let remainingKey = slice_from key (find_str key (arrayCloser @ sep) + 2)
      in if find_str key (arrayCloser @ sep) = - 1
         then slice_from key (find_str key arrayCloser + 1)
         else remainingKey)"

definition getSubArrayElement ::
  "pyenv \<Rightarrow> (string \<Rightarrow> json \<Rightarrow> error + lookup) \<Rightarrow> string \<Rightarrow> string \<Rightarrow> json \<Rightarrow> error + lookup" where
  "getSubArrayElement env g sep key d =
     (let subElemKey = slice_to key (find_str key arrayOpener);
          k = slice key (find_str key arrayOpener + 1) (find_str key arrayCloser)
      in bindE (resolve_index env g k d) (\<lambda>found.
           case found of
             None \<Rightarrow> Inr NotFound
           | Some index \<Rightarrow>
               (let remainingKey = remaining_key sep key
                in bindE (contains d subElemKey) (\<lambda>present.
                     if present then
                       bindE (getitem_str d subElemKey) (\<lambda>sub.
                       bindE (py_len sub) (\<lambda>len.
                         if index < len
                         then bindE (getitem_int sub index) (\<lambda>child. g remainingKey child)
                         else Inr NotFound))
                     else if subElemKey = [] then
                       bindE (getitem_int d index) (\<lambda>child. g remainingKey child)
                     else Inr NotFound))))"

text \<open>
  \<^verbatim>\<open>get(key, temp_data)\<close>, with the number of nested calls that the stack still
  allows as its first argument. \<^verbatim>\<open>temp_data\<close> defaults to \<^verbatim>\<open>''\<close>, and a falsy
  \<^verbatim>\<open>temp_data\<close> is replaced by the whole document.
\<close>

fun get_rec :: "pyenv \<Rightarrow> JsonHelper \<Rightarrow> nat \<Rightarrow> string \<Rightarrow> json \<Rightarrow> error + lookup" where
  "get_rec env self 0 key temp_data = Inl RecursionError"
| "get_rec env self (Suc depth) key temp_data =
     (let d = (if truthy temp_data then temp_data else data self);
          sep = separator self
      in if length key \<le> 0 then Inr (Found d)
         else if find_str key sep \<noteq> - 1 \<and> find_str key arrayOpener \<noteq> - 1 then
           (if find_str key sep < find_str key arrayOpener
            then getSubElement (get_rec env self depth) sep key d
            else getSubArrayElement env (get_rec env self depth) sep key d)
         else if find_str key sep \<noteq> - 1 then
           getSubElement (get_rec env self depth) sep key d
         else if find_str key arrayOpener \<noteq> - 1 then
           getSubArrayElement env (get_rec env self depth) sep key d
         else bindE (contains d key) (\<lambda>present.
           if present then bindE (getitem_str d key) (\<lambda>v. Inr (Found v))
           else Inr NotFound))"

definition get :: "pyenv \<Rightarrow> JsonHelper \<Rightarrow> string \<Rightarrow> error + lookup" where
  "get env self key = get_rec env self (recursion_limit env) key (JStr [])"

definition exists :: "pyenv \<Rightarrow> JsonHelper \<Rightarrow> string \<Rightarrow> error + bool" where
  "exists env self key = bindE (get env self key) (\<lambda>r. Inr (r \<noteq> NotFound))"

text \<open>
  The comparison methods. Python's \<^verbatim>\<open>and\<close> and \<^verbatim>\<open>or\<close> evaluate their right operand
  only when the left one does not decide the result, so an exception of the right
  operand is raised only then.
\<close>

definition andE :: "error + bool \<Rightarrow> error + bool \<Rightarrow> error + bool" where
  "andE a b = bindE a (\<lambda>x. if x then b else Inr False)"

definition orE :: "error + bool \<Rightarrow> error + bool \<Rightarrow> error + bool" where
  "orE a b = bindE a (\<lambda>x. if x then Inr True else b)"

text \<open>
  \<^verbatim>\<open>float(self.get(key)) OP float(value)\<close>: the left conversion is evaluated first.
\<close>

definition compare_key ::
  "(pyfloat \<Rightarrow> pyfloat \<Rightarrow> bool) \<Rightarrow> pyenv \<Rightarrow> JsonHelper \<Rightarrow> string \<Rightarrow> json \<Rightarrow> error + bool" where
  "compare_key rel env self key val =
     andE (exists env self key)
       (bindE (get env self key) (\<lambda>r.
        bindE (float_lookup env r) (\<lambda>a.
        bindE (py_float env val) (\<lambda>b. Inr (rel a b)))))"

definition equals :: "pyenv \<Rightarrow> JsonHelper \<Rightarrow> string \<Rightarrow> string \<Rightarrow> error + bool" where
  "equals env self key val =
     andE (exists env self key)
       (bindE (get env self key) (\<lambda>r. Inr (str_lookup env r \<in> set (split_chr CHR '':'' val))))"

definition lte :: "pyenv \<Rightarrow> JsonHelper \<Rightarrow> string \<Rightarrow> json \<Rightarrow> error + bool" where
  "lte = compare_key (\<lambda>a b. float_le a b)"

definition lt :: "pyenv \<Rightarrow> JsonHelper \<Rightarrow> string \<Rightarrow> json \<Rightarrow> error + bool" where
  "lt = compare_key (\<lambda>a b. float_lt a b)"

definition gte :: "pyenv \<Rightarrow> JsonHelper \<Rightarrow> string \<Rightarrow> json \<Rightarrow> error + bool" where
  "gte = compare_key (\<lambda>a b. float_le b a)"

definition gt :: "pyenv \<Rightarrow> JsonHelper \<Rightarrow> string \<Rightarrow> json \<Rightarrow> error + bool" where
  "gt = compare_key (\<lambda>a b. float_lt b a)"

section \<open>JsonRuleProcessor: the rule engine\<close>

text \<open>\<^verbatim>\<open>_getKeyAlias\<close>: \<^verbatim>\<open>key>alias\<close> when the text has exactly one \<^verbatim>\<open>'>'\<close>.\<close>

definition getKeyAlias :: "string \<Rightarrow> string \<times> string" where
  "getKeyAlias original_key =
     (if CHR ''>'' \<in> set original_key then
        (case split_chr CHR ''>'' original_key of
           [key, alias] \<Rightarrow> (key, alias)
         | _ \<Rightarrow> (original_key, original_key))
      else (original_key, original_key))"

text \<open>
  The command line arguments that the rule engine reads (\<^verbatim>\<open>None\<close> for an option that
  was not given), and the processor built from them. The separator is \<^verbatim>\<open>'.'\<close> unless
  a non-empty one was given.
\<close>

record args =
  arg_separator :: "string option"
  field_type :: string
  key_threshold_warning :: "string list option"
  key_threshold_critical :: "string list option"
  key_list :: "string list option"
  key_list_critical :: "string list option"
  key_value_list :: "string list option"
  key_value_list_critical :: "string list option"
  metric_list :: "string list option"

record JsonRuleProcessor =
  rules :: args
  helper :: JsonHelper

definition new_JsonRuleProcessor :: "json \<Rightarrow> args \<Rightarrow> JsonRuleProcessor" where
  "new_JsonRuleProcessor json_data rules_args =
     \<lparr>rules = rules_args,
      helper = \<lparr>data = json_data,
                separator = (case arg_separator rules_args of
                               None \<Rightarrow> ''.''
                             | Some s \<Rightarrow> if s \<noteq> [] then s else ''.'')\<rparr>\<rparr>"

definition quote :: string where
  "quote = [CHR 0x27]"

text \<open>\<^verbatim>\<open>checkExists\<close>: the loop, with the two accumulators as arguments.\<close>

fun checkExists_loop ::
  "pyenv \<Rightarrow> JsonRuleProcessor \<Rightarrow> string list \<Rightarrow> string \<Rightarrow> string \<Rightarrow> error + string \<times> string" where
  "checkExists_loop env self [] failure success = Inr (failure, success)"
| "checkExists_loop env self (k # ks) failure success =
     (case getKeyAlias k of (key, alias) \<Rightarrow>
        bindE (exists env (helper self) key) (\<lambda>e.
          checkExists_loop env self ks
            (if e = False then failure @ '' Key '' @ alias @ '' did not exist.'' else failure)
            success))"

definition checkExists ::
  "pyenv \<Rightarrow> JsonRuleProcessor \<Rightarrow> string list \<Rightarrow> error + string \<times> string" where
  "checkExists env self exists_list = checkExists_loop env self exists_list [] []"

text \<open>
  \<^verbatim>\<open>k, v = kv.split(',')\<close> raises \<^verbatim>\<open>ValueError\<close> unless the split has exactly two
  parts.
\<close>

definition unpack2 :: "string list \<Rightarrow> error + string \<times> string" where
  "unpack2 parts = (case parts of [k, v] \<Rightarrow> Inr (k, v) | _ \<Rightarrow> Inl ValueError)"

fun checkEquality_loop ::
  "pyenv \<Rightarrow> JsonRuleProcessor \<Rightarrow> string list \<Rightarrow> string \<Rightarrow> string \<Rightarrow> error + string \<times> string" where
  "checkEquality_loop env self [] failure success = Inr (failure, success)"
| "checkEquality_loop env self (kv # kvs) failure success =
     bindE (unpack2 (split_chr CHR '','' kv)) (\<lambda>(k, v).
       case getKeyAlias k of (key, alias) \<Rightarrow>
         bindE (get env (helper self) key) (\<lambda>r.
         bindE (TypeHelper env r (field_type (rules self))) (\<lambda>key_val.
         bindE (equals env (helper self) key v) (\<lambda>eq.
           if eq = False then
             checkEquality_loop env self kvs
               (failure @ '' Value for key '' @ alias @ '' ('' @ key_val @ '') did not match ''
                  @ v @ ''.'')
               success
           else
             checkEquality_loop env self kvs failure
               (success @ '' Value for key '' @ alias @ '' ('' @ key_val @ '') does match ''
                  @ v @ ''.'')))))"

definition checkEquality ::
  "pyenv \<Rightarrow> JsonRuleProcessor \<Rightarrow> string list \<Rightarrow> error + string \<times> string" where
  "checkEquality env self equality_list = checkEquality_loop env self equality_list [] []"

text \<open>
  The first lines of \<^verbatim>\<open>checkThreshold\<close>: the range text \<^verbatim>\<open>r\<close> becomes \<^verbatim>\<open>invert\<close>,
  \<^verbatim>\<open>start\<close> (the int \<^verbatim>\<open>0\<close> unless the text gives one) and \<^verbatim>\<open>end\<close> (the str
  \<^verbatim>\<open>'infinity'\<close> unless the text gives one).
\<close>

definition parse_range :: "string \<Rightarrow> bool \<times> json \<times> string" where
  "parse_range r0 =
     (let invert = startswith r0 ''@'';
          r = (if invert then slice_from r0 1 else r0);
          vals = split_chr CHR '':'' r;
          start = JInt 0;
          end' = ''infinity'';
          end' = (if length vals = 1 then vals ! 0 else end');
          start = (if length vals = 2 then JStr (vals ! 0) else start);
          end' = (if length vals = 2 \<and> vals ! 1 \<noteq> [] then vals ! 1 else end')
      in (invert, start, end'))"

text \<open>
  \<^verbatim>\<open>if c1: a  elif c2: b  else: c\<close>, where evaluating a condition can raise: the second
  condition is evaluated only when the first is false.
\<close>

definition if_elif_else ::
  "error + bool \<Rightarrow> error + 'a \<Rightarrow> error + bool \<Rightarrow> error + 'a \<Rightarrow> error + 'a \<Rightarrow> error + 'a" where
  "if_elif_else c1 a c2 b c =
     bindE c1 (\<lambda>x. if x then a else bindE c2 (\<lambda>y. if y then b else c))"

text \<open>
  The three chains of comparisons of \<^verbatim>\<open>checkThreshold\<close>, chosen by the bounds. \<open>th\<close>
  is the local \<^verbatim>\<open>th\<close> of the source, \<open>shown\<close> is
  \<^verbatim>\<open>" Value for key %s (%s) was"\<close> filled in; the result is the pair
  \<^verbatim>\<open>(failure, success)\<close>. Each message evaluates its \<^verbatim>\<open>th(...)\<close> arguments from left
  to right.
\<close>

definition check_range ::
  "pyenv \<Rightarrow> JsonHelper \<Rightarrow> (json \<Rightarrow> error + string) \<Rightarrow> string \<Rightarrow> string \<Rightarrow> bool \<Rightarrow> json \<Rightarrow> string
   \<Rightarrow> error + string \<times> string" where
  "check_range env h th key shown invert start end' =
     (let invert_str = (if invert then ''not'' else [])
      in
      if start = JStr ''~'' then
        if_elif_else
          (andE (Inr invert) (lte env h key (JStr end')))
          (bindE (th (JStr end')) (\<lambda>e.
             Inr (shown @ '' less than or equal to '' @ e @ ''.'', [])))
          (andE (Inr (\<not> invert)) (gt env h key (JStr end')))
          (bindE (th (JStr end')) (\<lambda>e.
             Inr (shown @ '' greater than '' @ e @ ''.'', [])))
          (bindE (th (JStr end')) (\<lambda>e.
             Inr ([], shown @ invert_str @ '' in range '' @ quote @ '':'' @ e @ quote @ ''.'')))
      else if end' = ''infinity'' then
        if_elif_else
          (andE (Inr invert) (gte env h key start))
          (bindE (th start) (\<lambda>s.
             Inr (shown @ '' greater than or equal to '' @ s @ ''.'', [])))
          (andE (Inr (\<not> invert)) (lt env h key start))
          (bindE (th start) (\<lambda>s.
             Inr (shown @ '' less than '' @ s @ ''.'', [])))
          (bindE (th start) (\<lambda>s.
             Inr ([], shown @ invert_str @ '' in range '' @ quote @ s @ '':'' @ quote @ ''.'')))
      else
        if_elif_else
          (andE (andE (Inr invert) (gte env h key start)) (lte env h key (JStr end')))
          (bindE (th start) (\<lambda>s. bindE (th (JStr end')) (\<lambda>e.
             Inr (shown @ '' inside the range '' @ quote @ s @ '' : '' @ e @ quote @ ''.'', []))))
          (andE (Inr (\<not> invert)) (orE (lt env h key start) (gt env h key (JStr end'))))
          (bindE (th start) (\<lambda>s. bindE (th (JStr end')) (\<lambda>e.
             Inr (shown @ '' outside the range '' @ quote @ s @ '' : '' @ e @ quote @ ''.'', []))))
          (bindE (th start) (\<lambda>s. bindE (th (JStr end')) (\<lambda>e.
             Inr ([], shown @ invert_str @ '' in range '' @ quote @ s @ '' : '' @ e @ quote
                      @ ''.'')))))"

text \<open>
  \<^verbatim>\<open>checkThreshold\<close>: the range is parsed, the value of the key is fetched and
  formatted (\<^verbatim>\<open>key_val\<close>), and then the comparisons run.
\<close>

definition checkThreshold ::
  "pyenv \<Rightarrow> JsonRuleProcessor \<Rightarrow> string \<Rightarrow> string \<Rightarrow> string \<Rightarrow> error + string \<times> string" where
  "checkThreshold env self key alias r =
     (case parse_range r of (invert, start, end') \<Rightarrow>
        bindE (get env (helper self) key) (\<lambda>v.
        bindE (TypeHelper env v (field_type (rules self))) (\<lambda>key_val.
          check_range env (helper self)
            (\<lambda>x. TypeHelper env (Found x) (field_type (rules self)))
            key ('' Value for key '' @ alias @ '' ('' @ key_val @ '') was'')
            invert start end')))"

fun checkThresholds_loop ::
  "pyenv \<Rightarrow> JsonRuleProcessor \<Rightarrow> string list \<Rightarrow> string \<Rightarrow> string \<Rightarrow> error + string \<times> string" where
  "checkThresholds_loop env self [] failure success = Inr (failure, success)"
| "checkThresholds_loop env self (threshold # rest) failure success =
     bindE (unpack2 (split_chr CHR '','' threshold)) (\<lambda>(k, r).
       case getKeyAlias k of (key, alias) \<Rightarrow>
         bindE (checkThreshold env self key alias r) (\<lambda>result.
           checkThresholds_loop env self rest (failure @ fst result) (success @ snd result)))"

definition checkThresholds ::
  "pyenv \<Rightarrow> JsonRuleProcessor \<Rightarrow> string list \<Rightarrow> error + string \<times> string" where
  "checkThresholds env self threshold_list = checkThresholds_loop env self threshold_list [] []"

text \<open>
  \<^verbatim>\<open>checkWarning\<close> and \<^verbatim>\<open>checkCritical\<close> run up to three checks, each only when its
  list is not \<^verbatim>\<open>None\<close>, and append their texts in that order.
\<close>

definition run_if_given ::
  "(string list \<Rightarrow> error + string \<times> string) \<Rightarrow> string list option \<Rightarrow> string \<times> string
   \<Rightarrow> error + string \<times> string" where
  "run_if_given check l acc =
     (case l of
        None \<Rightarrow> Inr acc
      | Some xs \<Rightarrow> bindE (check xs) (\<lambda>result. Inr (fst acc @ fst result, snd acc @ snd result)))"

definition checkWarning :: "pyenv \<Rightarrow> JsonRuleProcessor \<Rightarrow> error + string \<times> string" where
  "checkWarning env self =
     bindE (run_if_given (checkThresholds env self) (key_threshold_warning (rules self)) ([], []))
       (\<lambda>acc.
     bindE (run_if_given (checkEquality env self) (key_value_list (rules self)) acc) (\<lambda>acc.
     run_if_given (checkExists env self) (key_list (rules self)) acc))"

definition checkCritical :: "pyenv \<Rightarrow> JsonRuleProcessor \<Rightarrow> error + string \<times> string" where
  "checkCritical env self =
     bindE (run_if_given (checkThresholds env self) (key_threshold_critical (rules self)) ([], []))
       (\<lambda>acc.
     bindE (run_if_given (checkEquality env self) (key_value_list_critical (rules self)) acc)
       (\<lambda>acc.
     run_if_given (checkExists env self) (key_list_critical (rules self)) acc))"

text \<open>
  \<^verbatim>\<open>checkMetrics\<close>. A metric text with a comma is split; two, four or six parts are
  unpacked into the key, the unit and the ranges, and with any other number of parts the
  key stays the whole text.
\<close>

definition parse_metric ::
  "string \<Rightarrow> string \<times> string \<times> string option \<times> string option \<times> string option \<times> string option" where
  "parse_metric metric =
     (if CHR '','' \<in> set metric then
        (case split_chr CHR '','' metric of
           [key, uom] \<Rightarrow> (key, uom, None, None, None, None)
         | [key, uom, warn_range, crit_range] \<Rightarrow>
             (key, uom, Some warn_range, Some crit_range, None, None)
         | [key, uom, warn_range, crit_range, minimum, maximum] \<Rightarrow>
             (key, uom, Some warn_range, Some crit_range, Some minimum, Some maximum)
         | _ \<Rightarrow> (metric, [], None, None, None, None))
      else (metric, [], None, None, None, None))"

text \<open>
  One optional range of a metric: \<^verbatim>\<open>tier += self.checkThreshold(key, alias, r)[0]\<close>,
  then \<^verbatim>\<open>metrics += ";%s" % shown\<close>. The state is the pair of the metrics text and
  the tier's text.
\<close>

definition metric_range ::
  "pyenv \<Rightarrow> JsonRuleProcessor \<Rightarrow> string \<Rightarrow> string \<Rightarrow> string option \<Rightarrow> (string \<Rightarrow> string)
   \<Rightarrow> string \<times> string \<Rightarrow> error + string \<times> string" where
  "metric_range env self key alias shown as_range st =
     (case shown of
        None \<Rightarrow> Inr st
      | Some x \<Rightarrow>
          bindE (checkThreshold env self key alias (as_range x)) (\<lambda>result.
            Inr (fst st @ '';'' @ x, snd st @ fst result)))"

definition metric_step ::
  "pyenv \<Rightarrow> JsonRuleProcessor \<Rightarrow> string \<Rightarrow> string \<times> string \<times> string
   \<Rightarrow> error + string \<times> string \<times> string" where
  "metric_step env self metric st =
     (case st of (metrics, warning, critical) \<Rightarrow>
      case parse_metric metric of (key0, uom, warn_range, crit_range, minimum, maximum) \<Rightarrow>
      case getKeyAlias key0 of (key, alias) \<Rightarrow>
        bindE (exists env (helper self) key) (\<lambda>e.
          if e then
            bindE (get env (helper self) key) (\<lambda>v.
              let metrics = metrics @ quote @ alias @ quote @ ''='' @ str_lookup env v;
                  metrics = (if uom \<noteq> [] then metrics @ uom else metrics)
              in
              bindE (metric_range env self key alias warn_range (\<lambda>x. x) (metrics, warning))
                (\<lambda>(metrics, warning).
              bindE (metric_range env self key alias crit_range (\<lambda>x. x) (metrics, critical))
                (\<lambda>(metrics, critical).
              bindE (metric_range env self key alias minimum (\<lambda>x. x @ '':'') (metrics, critical))
                (\<lambda>(metrics, critical).
              bindE (metric_range env self key alias maximum (\<lambda>x. ''~:'' @ x) (metrics, critical))
                (\<lambda>(metrics, critical).
              Inr (metrics @ '' '', warning, critical))))))
          else Inr (metrics @ '' '', warning, critical)))"

fun checkMetrics_loop ::
  "pyenv \<Rightarrow> JsonRuleProcessor \<Rightarrow> string list \<Rightarrow> string \<times> string \<times> string
   \<Rightarrow> error + string \<times> string \<times> string" where
  "checkMetrics_loop env self [] st = Inr st"
| "checkMetrics_loop env self (metric # rest) st =
     bindE (metric_step env self metric st) (\<lambda>st'. checkMetrics_loop env self rest st')"

definition checkMetrics ::
  "pyenv \<Rightarrow> JsonRuleProcessor \<Rightarrow> error + string \<times> string \<times> string" where
  "checkMetrics env self =
     (case metric_list (rules self) of
        None \<Rightarrow> Inr ([], [], [])
      | Some ms \<Rightarrow> checkMetrics_loop env self ms ([], [], []))"

section \<open>check\_http\_json: the result aggregator\<close>

text \<open>
  The plugin's exit codes (\<^verbatim>\<open>OK_CODE\<close>, \<^verbatim>\<open>WARNING_CODE\<close>, \<^verbatim>\<open>CRITICAL_CODE\<close>,
  \<^verbatim>\<open>UNKNOWN_CODE\<close>) are Python ints.
\<close>

definition OK_CODE :: int where "OK_CODE = 0"
definition WARNING_CODE :: int where "WARNING_CODE = 1"
definition CRITICAL_CODE :: int where "CRITICAL_CODE = 2"
definition UNKNOWN_CODE :: int where "UNKNOWN_CODE = 3"

text \<open>The fields of class \<^verbatim>\<open>NagiosHelper\<close>; all of them start as the empty string.\<close>

record NagiosHelper =
  status_message :: string
  performance_data :: string
  warning_message :: string
  critical_message :: string
  unknown_message :: string

definition new_NagiosHelper :: NagiosHelper where
  "new_NagiosHelper =
     \<lparr>status_message = '''', performance_data = '''', warning_message = '''',
      critical_message = '''', unknown_message = ''''\<rparr>"

text \<open>
  \<^verbatim>\<open>getCode\<close>: three successive assignments to the local \<^verbatim>\<open>code\<close>, each guarded by
  one message being non-empty; the last assignment that fires wins.
\<close>

definition getCode :: "NagiosHelper \<Rightarrow> int" where
  "getCode self =
     (let code = OK_CODE;
          code = (if warning_message self \<noteq> '''' then WARNING_CODE else code);
          code = (if critical_message self \<noteq> '''' then CRITICAL_CODE else code);
          code = (if unknown_message self \<noteq> '''' then UNKNOWN_CODE else code)
      in code)"

definition append_warning :: "NagiosHelper \<Rightarrow> string \<Rightarrow> string \<Rightarrow> NagiosHelper" where
  "append_warning self wm sm =
     self\<lparr>warning_message := warning_message self @ wm,
          status_message := status_message self @ sm\<rparr>"

definition append_critical :: "NagiosHelper \<Rightarrow> string \<Rightarrow> string \<Rightarrow> NagiosHelper" where
  "append_critical self cm sm =
     self\<lparr>critical_message := critical_message self @ cm,
          status_message := status_message self @ sm\<rparr>"

definition append_unknown :: "NagiosHelper \<Rightarrow> string \<Rightarrow> string \<Rightarrow> NagiosHelper" where
  "append_unknown self um sm =
     self\<lparr>unknown_message := unknown_message self @ um,
          status_message := status_message self @ sm\<rparr>"

definition append_metrics :: "NagiosHelper \<Rightarrow> string \<Rightarrow> string \<Rightarrow> string \<Rightarrow> NagiosHelper" where
  "append_metrics self pd wm cm =
     append_critical
       (append_warning (self\<lparr>performance_data := performance_data self @ pd\<rparr>) wm '''')
       cm ''''"

section \<open>The program after the fetch\<close>

text \<open>
  What the entry point does with the parsed document: it builds the processor, appends
  the warning checks, the critical checks and the metrics to a fresh
  \<^verbatim>\<open>NagiosHelper\<close>, and exits with \<^verbatim>\<open>nagios.getCode()\<close>. No exception is caught on
  this path.
\<close>

definition run_rules :: "pyenv \<Rightarrow> json \<Rightarrow> args \<Rightarrow> error + NagiosHelper" where
  "run_rules env json_data a =
     (let nagios = new_NagiosHelper;
          processor = new_JsonRuleProcessor json_data a
      in bindE (checkWarning env processor) (\<lambda>(failure, success).
         let nagios = append_warning nagios failure success in
         bindE (checkCritical env processor) (\<lambda>(failure, success).
         let nagios = append_critical nagios failure success in
         bindE (checkMetrics env processor) (\<lambda>(metrics, warning, critical).
           Inr (append_metrics nagios metrics warning critical)))))"

definition exit_code :: "pyenv \<Rightarrow> json \<Rightarrow> args \<Rightarrow> error + int" where
  "exit_code env json_data a = bindE (run_rules env json_data a) (\<lambda>nagios. Inr (getCode nagios))"

section \<open>The verdict of a threshold check\<close>

text \<open>
  The comparisons of \<^const>\<open>check_range\<close> without the messages: whether the first or the
  second condition of the chosen chain holds, that is, whether the check reports a
  failure. It is used to state that the messages do not influence the verdict.
\<close>

definition threshold_fails ::
  "pyenv \<Rightarrow> JsonHelper \<Rightarrow> string \<Rightarrow> bool \<Rightarrow> json \<Rightarrow> string \<Rightarrow> error + bool" where
  "threshold_fails env h key invert start end' =
     (if start = JStr ''~'' then
        orE (andE (Inr invert) (lte env h key (JStr end')))
            (andE (Inr (\<not> invert)) (gt env h key (JStr end')))
      else if end' = ''infinity'' then
        orE (andE (Inr invert) (gte env h key start))
            (andE (Inr (\<not> invert)) (lt env h key start))
      else
        orE (andE (andE (Inr invert) (gte env h key start)) (lte env h key (JStr end')))
            (andE (Inr (\<not> invert)) (orE (lt env h key start) (gt env h key (JStr end')))))"

text \<open>
  The band of a range as the specification describes it, for the parsed \<^verbatim>\<open>start\<close> and
  \<^verbatim>\<open>end\<close>: from \<^verbatim>\<open>start\<close> (no lower bound when it is \<^verbatim>\<open>~\<close>) to \<^verbatim>\<open>end\<close> (no
  upper bound when the range gives none), both bounds included. A bound that is not a
  number bounds nothing: no value is in such a band.
\<close>

definition above_start :: "pyenv \<Rightarrow> json \<Rightarrow> pyfloat \<Rightarrow> bool" where
  "above_start env start x =
     (if start = JStr ''~'' then True
      else (case py_float env start of Inr lo \<Rightarrow> float_le lo x | Inl e \<Rightarrow> False))"

definition below_end :: "pyenv \<Rightarrow> json \<Rightarrow> string \<Rightarrow> pyfloat \<Rightarrow> bool" where
  "below_end env start end' x =
     (if start \<noteq> JStr ''~'' \<and> end' = ''infinity'' then True
      else (case float_of_str env end' of Some hi \<Rightarrow> float_le x hi | None \<Rightarrow> False))"

definition in_band :: "pyenv \<Rightarrow> json \<Rightarrow> string \<Rightarrow> pyfloat \<Rightarrow> bool" where
  "in_band env start end' x = (above_start env start x \<and> below_end env start end' x)"

text \<open>The same processor under another \<^verbatim>\<open>--field_type\<close>.\<close>

definition with_field_type :: "string \<Rightarrow> JsonRuleProcessor \<Rightarrow> JsonRuleProcessor" where
  "with_field_type ft self = self\<lparr>rules := (rules self)\<lparr>field_type := ft\<rparr>\<rparr>"

section \<open>A runtime for the examples\<close>

text \<open>
  The examples below need the runtime's conversions at concrete arguments. This runtime
  gives CPython's answers on the texts the examples use: decimal integer literals with
  an optional minus sign, \<^verbatim>\<open>inf\<close>, \<^verbatim>\<open>infinity\<close> and \<^verbatim>\<open>nan\<close> for \<^verbatim>\<open>float\<close>, strings
  without quotes or escapes for \<^verbatim>\<open>repr\<close>, and padded base64 of ASCII text. Texts that
  are none of these (\<^verbatim>\<open>abc\<close>, the empty text) are rejected as CPython rejects them;
  texts that CPython accepts in other notations (\<^verbatim>\<open>5.5\<close>, \<^verbatim>\<open>1e3\<close>) are not used.
\<close>

definition signed_decimal :: "string \<Rightarrow> int option" where
  "signed_decimal s =
     (if isdecimal s then Some (int (int_of_decimal s))
      else (case s of
              c # t \<Rightarrow> if c = CHR ''-'' \<and> isdecimal t then Some (- int (int_of_decimal t)) else None
            | [] \<Rightarrow> None))"

definition ex_float_of_str :: "string \<Rightarrow> pyfloat option" where
  "ex_float_of_str s =
     (if s = ''inf'' \<or> s = ''infinity'' then Some PInf
      else if s = ''nan'' then Some NaN
      else map_option (\<lambda>i. Fin (of_int i)) (signed_decimal s))"

definition ex_str_of_float :: "pyfloat \<Rightarrow> string" where
  "ex_str_of_float f =
     (case f of
        Fin q \<Rightarrow> str_int \<lfloor>q\<rfloor> @ ''.0''
      | PInf \<Rightarrow> ''inf''
      | NInf \<Rightarrow> ''-inf''
      | NaN \<Rightarrow> ''nan'')"

definition b64_alphabet :: string where
  "b64_alphabet = ''ABCDEFGHIJKLMNOPQRSTUVWXYZabcdefghijklmnopqrstuvwxyz0123456789+/''"

fun index_of :: "char \<Rightarrow> string \<Rightarrow> nat" where
  "index_of c [] = 0"
| "index_of c (x # xs) = (if x = c then 0 else Suc (index_of c xs))"

text \<open>Sextets to bytes: four make three bytes; a last group of three or two makes two or one.\<close>

fun sextets_to_bytes :: "nat list \<Rightarrow> nat list" where
  "sextets_to_bytes (a # b # c # d # rest) =
     (4 * a + b div 16) # (16 * (b mod 16) + c div 4) # (64 * (c mod 4) + d)
     # sextets_to_bytes rest"
| "sextets_to_bytes [a, b, c] = [4 * a + b div 16, 16 * (b mod 16) + c div 4]"
| "sextets_to_bytes [a, b] = [4 * a + b div 16]"
| "sextets_to_bytes xs = []"

definition ex_b64decode :: "string \<Rightarrow> error + string" where
  "ex_b64decode s =
     (let body = takeWhile (\<lambda>c. c \<noteq> CHR ''='') s;
          padding = dropWhile (\<lambda>c. c \<noteq> CHR ''='') s;
          bytes = sextets_to_bytes (map (\<lambda>c. index_of c b64_alphabet) body)
      in if list_all (\<lambda>c. c \<in> set b64_alphabet) body \<and> list_all (\<lambda>c. c = CHR ''='') padding
            \<and> length body mod 4 \<noteq> 1 \<and> (length body + length padding) mod 4 = 0
            \<and> length padding \<le> 2
         then (if list_all (\<lambda>b. b < 128) bytes then Inr (map char_of bytes)
               else Inl UnicodeDecodeError)
         else Inl binascii_Error)"

definition py :: pyenv where
  "py =
     \<lparr>float_of_str = ex_float_of_str,
      float_of_int = (\<lambda>i. Some (Fin (of_int i))),
      int_of_str = signed_decimal,
      str_of_float = ex_str_of_float,
      repr_of_str = (\<lambda>s. quote @ s @ quote),
      b64decode = ex_b64decode,
      recursion_limit = 1000\<rparr>"

definition no_args :: args where
  "no_args =
     \<lparr>arg_separator = None, field_type = ''str'',
      key_threshold_warning = None, key_threshold_critical = None,
      key_list = None, key_list_critical = None,
      key_value_list = None, key_value_list_critical = None,
      metric_list = None\<rparr>"

text \<open>
  The documents and processors of the examples: \<^verbatim>\<open>{"metric": 5}\<close>, the document of the
  plugin's own unit tests, with the default arguments.
\<close>

definition metric5 :: json where
  "metric5 = JObj [(''metric'', JInt 5)]"

definition metric5_processor :: JsonRuleProcessor where
  "metric5_processor = new_JsonRuleProcessor metric5 no_args"

section \<open>Theorems\<close>

text \<open>
  C5. Whatever the accumulated messages are, the final code is UNKNOWN when the unknown
  text is non-empty, otherwise CRITICAL when the critical text is non-empty, otherwise
  WARNING when the warning text is non-empty, otherwise OK. So a warning failure together
  with a critical failure gives CRITICAL, and any unknown text gives UNKNOWN.
\<close>

theorem getCode_precedence:
  "getCode v =
     (if unknown_message v \<noteq> '''' then UNKNOWN_CODE
      else if critical_message v \<noteq> '''' then CRITICAL_CODE
      else if warning_message v \<noteq> '''' then WARNING_CODE
      else OK_CODE)"
  by (simp add: getCode_def)

subsection \<open>Exceptions and the short-circuit operators\<close>

lemma bindE_Inr_iff: "(bindE m f = Inr y) = (\<exists>x. m = Inr x \<and> f x = Inr y)"
  by (cases m) auto

lemma bindE_Inl_iff: "(bindE m f = Inl e) = (m = Inl e \<or> (\<exists>x. m = Inr x \<and> f x = Inl e))"
  by (cases m) auto

lemma andE_simps:
  "andE (Inr True) b = b"
  "andE (Inr False) b = Inr False"
  "andE (Inl e) b = Inl e"
  by (simp_all add: andE_def)

lemma orE_simps:
  "orE (Inr True) b = Inr True"
  "orE (Inr False) b = b"
  "orE (Inl e) b = Inl e"
  by (simp_all add: orE_def)

lemma if_elif_else_simps:
  "if_elif_else (Inr True) a c2 b c = a"
  "if_elif_else (Inr False) a (Inr True) b c = b"
  "if_elif_else (Inr False) a (Inr False) b c = c"
  "if_elif_else (Inl e) a c2 b c = Inl e"
  "if_elif_else (Inr False) a (Inl e) b c = Inl e"
  by (simp_all add: if_elif_else_def)

text \<open>
  When the two first branches of an \<^verbatim>\<open>if/elif/else\<close> produce a failure text and the
  last one none, the failure text is non-empty exactly when one of the conditions held.
\<close>

lemma if_elif_else_verdict:
  assumes "if_elif_else c1 a c2 b c = Inr (f, s)"
    and "\<And>f s. a = Inr (f, s) \<Longrightarrow> f \<noteq> []"
    and "\<And>f s. b = Inr (f, s) \<Longrightarrow> f \<noteq> []"
    and "\<And>f s. c = Inr (f, s) \<Longrightarrow> f = []"
  shows "orE c1 c2 = Inr (f \<noteq> [])"
proof (cases c1)
  case (Inl e)
  with assms(1) show ?thesis by (simp add: if_elif_else_def)
next
  case c1: (Inr x)
  show ?thesis
  proof (cases x)
    case True
    with c1 assms(1) have "a = Inr (f, s)" by (simp add: if_elif_else_def)
    with assms(2) c1 True show ?thesis by (simp add: orE_def)
  next
    case False
    show ?thesis
    proof (cases c2)
      case (Inl e)
      with c1 False assms(1) show ?thesis by (simp add: if_elif_else_def)
    next
      case (Inr y)
      with c1 False assms(1) assms(3)[of f s] assms(4)[of f s] show ?thesis
        by (cases y) (auto simp add: if_elif_else_def orE_def)
    qed
  qed
qed

lemma if_elif_else_exclusive:
  assumes "if_elif_else c1 a c2 b c = Inr (f, s)"
    and "\<And>f s. a = Inr (f, s) \<Longrightarrow> f \<noteq> [] \<and> s = []"
    and "\<And>f s. b = Inr (f, s) \<Longrightarrow> f \<noteq> [] \<and> s = []"
    and "\<And>f s. c = Inr (f, s) \<Longrightarrow> f = [] \<and> s \<noteq> []"
  shows "(f = []) = (s \<noteq> [])"
proof -
  from assms(1) consider "a = Inr (f, s)" | "b = Inr (f, s)" | "c = Inr (f, s)"
    by (auto simp: if_elif_else_def bindE_Inr_iff split: if_splits)
  then show ?thesis
    using assms(2-4) by cases auto
qed

subsection \<open>IEEE comparisons away from NaN\<close>

lemma float_lt_iff_not_le: "a \<noteq> NaN \<Longrightarrow> b \<noteq> NaN \<Longrightarrow> float_lt a b = (\<not> float_le b a)"
  by (cases a; cases b) auto


subsection \<open>The comparison methods on a key that resolves, and on one that does not\<close>

lemma compare_key_found:
  "get env h key = Inr (Found v) \<Longrightarrow>
   compare_key rel env h key x =
     bindE (py_float env v) (\<lambda>a. bindE (py_float env x) (\<lambda>b. Inr (rel a b)))"
  by (simp add: compare_key_def exists_def andE_def)

lemma compare_key_value:
  "get env h key = Inr (Found v) \<Longrightarrow> py_float env v = Inr a \<Longrightarrow>
   compare_key rel env h key x = bindE (py_float env x) (\<lambda>b. Inr (rel a b))"
  by (simp add: compare_key_found)

lemma compare_key_not_found:
  "get env h key = Inr NotFound \<Longrightarrow> compare_key rel env h key x = Inr False"
  by (simp add: compare_key_def exists_def andE_def)

lemma compare_key_error:
  "get env h key = Inl e \<Longrightarrow> compare_key rel env h key x = Inl e"
  by (simp add: compare_key_def exists_def andE_def)

lemmas comparison_defs = lte_def lt_def gte_def gt_def

subsection \<open>TypeHelper in the default mode\<close>

lemma TypeHelper_str: "TypeHelper env v ''str'' = Inr (str_lookup env v)"
  by (simp add: TypeHelper_def lower_def lower_chr_def)

subsection \<open>Parsing a range\<close>


lemma split_chr_Cons_sep: "split_chr c (c # s) = [] # split_chr c s"
  by simp

lemma split_chr_not_Nil: "split_chr c s \<noteq> []"
  by (induction s) (auto split: list.splits)


lemma startswith_at: "startswith s ''@'' = (\<exists>t. s = CHR ''@'' # t)"
  by (cases s) (auto simp: startswith_def)



lemma parse_range_inverted:
  assumes "\<not> startswith r ''@''" "parse_range r = (invert, start, end')"
  shows "invert = False \<and> parse_range (CHR ''@'' # r) = (True, start, end')"
  using assms
  by (auto simp: parse_range_def startswith_def slice_from_def clip_def Let_def)

subsection \<open>Messages and verdict of a threshold check\<close>

lemma check_range_verdict:
  assumes "check_range env h th key shown invert st en = Inr (f, s)"
    and "shown \<noteq> []"
  shows "threshold_fails env h key invert st en = Inr (f \<noteq> [])"
proof -
  consider (neg) "st = JStr ''~''" | (inf) "st \<noteq> JStr ''~''" "en = ''infinity''"
    | (two) "st \<noteq> JStr ''~''" "en \<noteq> ''infinity''" by blast
  then show ?thesis
  proof cases
    case neg
    show ?thesis
      using assms(1)
      unfolding check_range_def threshold_fails_def Let_def if_P[OF neg]
      by (rule if_elif_else_verdict) (use assms(2) in \<open>auto simp: bindE_Inr_iff\<close>)
  next
    case inf
    show ?thesis
      using assms(1)
      unfolding check_range_def threshold_fails_def Let_def if_not_P[OF inf(1)] if_P[OF inf(2)]
      by (rule if_elif_else_verdict) (use assms(2) in \<open>auto simp: bindE_Inr_iff\<close>)
  next
    case two
    show ?thesis
      using assms(1)
      unfolding check_range_def threshold_fails_def Let_def if_not_P[OF two(1)] if_not_P[OF two(2)]
      by (rule if_elif_else_verdict) (use assms(2) in \<open>auto simp: bindE_Inr_iff\<close>)
  qed
qed

lemma check_range_exclusive:
  assumes "check_range env h th key shown invert st en = Inr (f, s)"
    and "shown \<noteq> []"
  shows "(f = []) = (s \<noteq> [])"
proof -
  consider (neg) "st = JStr ''~''" | (inf) "st \<noteq> JStr ''~''" "en = ''infinity''"
    | (two) "st \<noteq> JStr ''~''" "en \<noteq> ''infinity''" by blast
  then show ?thesis
  proof cases
    case neg
    show ?thesis
      using assms(1)
      unfolding check_range_def Let_def if_P[OF neg]
      by (rule if_elif_else_exclusive) (use assms(2) in \<open>auto simp: bindE_Inr_iff\<close>)
  next
    case inf
    show ?thesis
      using assms(1)
      unfolding check_range_def Let_def if_not_P[OF inf(1)] if_P[OF inf(2)]
      by (rule if_elif_else_exclusive) (use assms(2) in \<open>auto simp: bindE_Inr_iff\<close>)
  next
    case two
    show ?thesis
      using assms(1)
      unfolding check_range_def Let_def if_not_P[OF two(1)] if_not_P[OF two(2)]
      by (rule if_elif_else_exclusive) (use assms(2) in \<open>auto simp: bindE_Inr_iff\<close>)
  qed
qed

lemma checkThreshold_verdict:
  assumes "checkThreshold env self key alias r = Inr (f, s)"
    and "parse_range r = (invert, st, en)"
  shows "threshold_fails env (helper self) key invert st en = Inr (f \<noteq> [])"
  using assms
  by (auto simp: checkThreshold_def bindE_Inr_iff intro!: check_range_verdict)

lemma checkThreshold_exclusive:
  assumes "checkThreshold env self key alias r = Inr (f, s)"
  shows "(f = []) = (s \<noteq> [])"
  using assms
  by (auto simp: checkThreshold_def bindE_Inr_iff split: prod.splits
      dest!: check_range_exclusive)

text \<open>A failure of path resolution is the result of the threshold check.\<close>

lemma checkThreshold_get_error:
  "get env (helper self) key = Inl e \<Longrightarrow> checkThreshold env self key alias r = Inl e"
  by (simp add: checkThreshold_def split: prod.splits)

text \<open>
  The verdict on a key that resolves to a value with the float \<open>x\<close>, when neither \<open>x\<close>
  nor a bound is NaN: a failure is reported exactly when \<open>x\<close> is outside the band, or,
  for an inverted range, inside it.
\<close>

lemma threshold_fails_band:
  assumes got: "get env h key = Inr (Found v)" "py_float env v = Inr x" "x \<noteq> NaN"
    and bounds: "py_float env start \<noteq> Inr NaN" "float_of_str env end' \<noteq> Some NaN"
    and ret: "threshold_fails env h key invert start end' = Inr b"
  shows "b = (if invert then in_band env start end' x else \<not> in_band env start end' x)"
proof -
  have cmp: "\<And>rel y. compare_key rel env h key y = bindE (py_float env y) (\<lambda>b. Inr (rel x b))"
    using got by (simp add: compare_key_value)
  have lt_le: "\<And>y. y \<noteq> NaN \<Longrightarrow> float_lt x y = (\<not> float_le y x)"
    "\<And>y. y \<noteq> NaN \<Longrightarrow> float_lt y x = (\<not> float_le x y)"
    using got(3) by (simp_all add: float_lt_iff_not_le)
  consider (neg) "start = JStr ''~''" | (inf) "start \<noteq> JStr ''~''" "end' = ''infinity''"
    | (two) "start \<noteq> JStr ''~''" "end' \<noteq> ''infinity''" by blast
  then show ?thesis
  proof cases
    case neg
    with ret bounds(2) show ?thesis
      by (cases invert; cases "float_of_str env end'")
         (auto simp: threshold_fails_def comparison_defs cmp andE_simps orE_simps in_band_def
            above_start_def below_end_def lt_le orE_def split: if_splits)
  next
    case inf
    with ret bounds(1) show ?thesis
      by (cases invert; cases "py_float env start")
         (auto simp: threshold_fails_def comparison_defs cmp andE_simps orE_simps in_band_def
            above_start_def below_end_def lt_le orE_def split: if_splits)
  next
    case two
    with ret bounds show ?thesis
      by (cases invert; cases "py_float env start"; cases "float_of_str env end'")
         (auto simp: threshold_fails_def comparison_defs cmp andE_simps orE_simps in_band_def
            above_start_def below_end_def lt_le orE_def andE_def split: if_splits)
  qed
qed

subsection \<open>Evaluating the examples\<close>

lemmas get_rec_numeral =
  get_rec.simps(2)[where depth = "pred_numeral n", folded numeral_eq_Suc] for n

lemmas str_eval = find_str_def startswith_def slice_to_def slice_from_def slice_def clip_def
  isdecimal_def is_digit_def int_of_decimal_def digit_val_def arrayOpener_def arrayCloser_def
  str_int_def str_nat.simps digit_chr_def quote_def lower_def lower_chr_def

lemmas get_eval = get_def get_rec_numeral getSubElement_def getSubArrayElement_def
  resolve_index_def remaining_key_def exists_def Let_def

lemmas rule_eval = checkThreshold_def parse_range_def check_range_def if_elif_else_def
  andE_def orE_def lte_def lt_def gte_def gt_def compare_key_def equals_def TypeHelper_def
  py_str_def getKeyAlias_def unpack2_def checkThresholds_def checkEquality_def checkExists_def
  get_size_def size_system_def si_system_def trunc_div_def

lemmas example_eval = py_def ex_float_of_str_def signed_decimal_def ex_str_of_float_def
  ex_b64decode_def b64_alphabet_def no_args_def new_JsonRuleProcessor_def metric5_def
  metric5_processor_def with_field_type_def

subsection \<open>A key that does not resolve\<close>

lemma andE_Inr_False: "andE (Inr b) (Inr False) = Inr False"
  by (simp add: andE_def)

lemma check_range_not_found:
  assumes "get env h key = Inr NotFound"
    and "\<And>x. th x = Inr (show x)"
  shows "\<exists>s. check_range env h th key shown invert start end' = Inr ([], shown @ s)"
  using assms
  by (simp add: check_range_def comparison_defs compare_key_not_found andE_Inr_False
      orE_simps if_elif_else_simps Let_def)

text \<open>
  In the default display mode (\<^verbatim>\<open>field_type = 'str'\<close>) a threshold rule whose key
  resolves to \<^verbatim>\<open>(None, 'not_found')\<close> produces no failure text and a non-empty
  success text, whatever the range is: \<^verbatim>\<open>str\<close> formats the tuple, every comparison on
  the missing key is false behind its guard \<^verbatim>\<open>self.exists(key) and\<close>, and the last
  branch of the chain is taken.
\<close>

lemma checkThreshold_not_found_str:
  assumes "get env (helper self) key = Inr NotFound"
    and "field_type (rules self) = ''str''"
  shows "\<exists>s. checkThreshold env self key alias r = Inr ([], s) \<and> s \<noteq> []"
proof -
  obtain invert start end' where p: "parse_range r = (invert, start, end')"
    by (cases "parse_range r") auto
  let ?shown = "'' Value for key '' @ alias @ '' ('' @ str_lookup env NotFound @ '') was''"
  from check_range_not_found[OF assms(1), of "\<lambda>x. TypeHelper env (Found x) ''str''"
      "\<lambda>x. str_lookup env (Found x)" ?shown invert start end']
  obtain s where "check_range env (helper self) (\<lambda>x. TypeHelper env (Found x) ''str'') key
      ?shown invert start end' = Inr ([], ?shown @ s)"
    by (auto simp: TypeHelper_str)
  then show ?thesis
    using assms p by (simp add: checkThreshold_def TypeHelper_str)
qed

lemma TypeHelper_not_found_size:
  assumes "ft = ''size'' \<or> lower ft = ''si''"
  shows "TypeHelper env NotFound ft = Inl TypeError"
  using assms by (auto simp: TypeHelper_def)

text \<open>
  C10. A threshold rule whose key resolves to \<^verbatim>\<open>(None, 'not_found')\<close> should produce
  no failure text and a success text in every display mode, as it does in the mode
  \<^verbatim>\<open>'str'\<close>. The code does not in the modes \<^verbatim>\<open>'size'\<close> and \<^verbatim>\<open>'SI'\<close>:
  \<^verbatim>\<open>checkThreshold\<close> formats the looked-up value with \<^verbatim>\<open>TypeHelper\<close> before any
  comparison and without the guard \<^verbatim>\<open>exists\<close> that the comparisons have, so
  \<^verbatim>\<open>int((None, 'not_found'))\<close> raises \<^verbatim>\<open>TypeError\<close>, whatever the range is. The call
  returns neither a failure text nor a success text.
\<close>

theorem missing_key_raises_in_size_mode:
  assumes "get env (helper self) key = Inr NotFound"
    and "field_type (rules self) = ''size'' \<or> lower (field_type (rules self)) = ''si''"
  shows "checkThreshold env self key alias r = Inl TypeError"
proof -
  obtain invert start end' where p: "parse_range r = (invert, start, end')"
    by (cases "parse_range r") auto
  show ?thesis
    unfolding checkThreshold_def p
    by (simp add: assms(1) TypeHelper_not_found_size[OF assms(2)])
qed

theorem missing_key_raises_in_size_mode_witness:
  "get py (helper metric5_processor) ''nothere'' = Inr NotFound
   \<and> checkThreshold py (with_field_type ''size'' metric5_processor) ''nothere'' ''nothere'' ''5''
       = Inl TypeError
   \<and> checkThreshold py (with_field_type ''SI'' metric5_processor) ''nothere'' ''nothere''
       ''@1:5'' = Inl TypeError
   \<and> checkThresholds py (with_field_type ''size'' metric5_processor) [''nothere,5'']
       = Inl TypeError
   \<and> (\<exists>s. checkThreshold py metric5_processor ''nothere'' ''nothere'' ''5'' = Inr ([], s)
          \<and> s \<noteq> [])"
proof -
  have a: "get py (helper metric5_processor) ''nothere'' = Inr NotFound"
    by (simp add: example_eval get_eval str_eval)
  have size: "get py (helper (with_field_type ''size'' metric5_processor)) ''nothere''
      = Inr NotFound"
    "field_type (rules (with_field_type ''size'' metric5_processor)) = ''size''
     \<or> lower (field_type (rules (with_field_type ''size'' metric5_processor))) = ''si''"
    using a by (simp_all add: with_field_type_def)
  have si: "get py (helper (with_field_type ''SI'' metric5_processor)) ''nothere''
      = Inr NotFound"
    "field_type (rules (with_field_type ''SI'' metric5_processor)) = ''size''
     \<or> lower (field_type (rules (with_field_type ''SI'' metric5_processor))) = ''si''"
    using a by (simp_all add: with_field_type_def str_eval)
  note raises_size = missing_key_raises_in_size_mode[OF size]
  note raises_si = missing_key_raises_in_size_mode[OF si]
  have list: "checkThresholds py (with_field_type ''size'' metric5_processor) [''nothere,5'']
      = Inl TypeError"
    using raises_size[of "''nothere''" "''5''"]
    by (simp add: checkThresholds_def unpack2_def getKeyAlias_def str_eval)
  have str: "\<exists>s. checkThreshold py metric5_processor ''nothere'' ''nothere'' ''5''
      = Inr ([], s) \<and> s \<noteq> []"
    by (rule checkThreshold_not_found_str[OF a]) (simp add: example_eval)
  from a raises_size[of "''nothere''" "''5''"] raises_si[of "''nothere''" "''@1:5''"] list str
  show ?thesis by blast
qed

subsection \<open>The default lower bound\<close>






subsection \<open>Inverted ranges\<close>

text \<open>
  C4 (amended). For a range text \<^verbatim>\<open>r\<close> without the leading \<^verbatim>\<open>@\<close>, a key that resolves
  to a number \<open>x\<close> other than NaN, and bounds that are not NaN: whenever both
  \<^verbatim>\<open>checkThreshold\<close> with \<^verbatim>\<open>r\<close> and with \<^verbatim>\<open>"@" + r\<close> return, the inverted range passes
  exactly when the plain range fails, and the inverted range passes exactly when \<open>x\<close> is
  not in the band of \<^verbatim>\<open>r\<close>; the bounds of the band are in the band, so they fail when
  inverted.
\<close>

theorem inversion_flips_verdict:
  assumes plain: "\<not> startswith r ''@''" "parse_range r = (invert, start, end')"
    and got: "get env (helper self) key = Inr (Found v)" "py_float env v = Inr x" "x \<noteq> NaN"
    and bounds: "py_float env start \<noteq> Inr NaN" "float_of_str env end' \<noteq> Some NaN"
    and ret: "checkThreshold env self key alias r = Inr (f1, s1)"
      "checkThreshold env self key alias (CHR ''@'' # r) = Inr (f2, s2)"
  shows "(f2 = []) = (f1 \<noteq> []) \<and> (f2 = []) = (\<not> in_band env start end' x)"
proof -
  from parse_range_inverted[OF plain]
  have p1: "parse_range r = (False, start, end')"
    and p2: "parse_range (CHR ''@'' # r) = (True, start, end')"
    using plain(2) by simp_all
  have "(f1 \<noteq> []) = (\<not> in_band env start end' x)"
    using threshold_fails_band[OF got bounds checkThreshold_verdict[OF ret(1) p1]] by simp
  moreover have "(f2 \<noteq> []) = in_band env start end' x"
    using threshold_fails_band[OF got bounds checkThreshold_verdict[OF ret(2) p2]] by simp
  ultimately show ?thesis by blast
qed

theorem inversion_flips_verdict_witness:
  "(\<exists>s. checkThreshold py metric5_processor ''metric'' ''metric'' ''1:5'' = Inr ([], s))
   \<and> (\<exists>f s. checkThreshold py metric5_processor ''metric'' ''metric'' ''@1:5'' = Inr (f, s)
              \<and> f \<noteq> [])
   \<and> in_band py (JStr ''1'') ''5'' (Fin 5)"
proof -
  have plain: "\<not> startswith ''1:5'' ''@''" "parse_range ''1:5'' = (False, JStr ''1'', ''5'')"
    by (simp_all add: parse_range_def str_eval)
  have got: "get py (helper metric5_processor) ''metric'' = Inr (Found (JInt 5))"
    "py_float py (JInt 5) = Inr (Fin 5)" "Fin 5 \<noteq> NaN"
    by (simp_all add: example_eval get_eval str_eval)
  have bounds: "py_float py (JStr ''1'') \<noteq> Inr NaN" "float_of_str py ''5'' \<noteq> Some NaN"
    by (simp_all add: example_eval str_eval)
  obtain f1 s1 where r1:
    "checkThreshold py metric5_processor ''metric'' ''metric'' ''1:5'' = Inr (f1, s1)"
    by (simp add: example_eval get_eval str_eval rule_eval)
  obtain f2 s2 where r2:
    "checkThreshold py metric5_processor ''metric'' ''metric'' (CHR ''@'' # ''1:5'') = Inr (f2, s2)"
    by (simp add: example_eval get_eval str_eval rule_eval)
  have band: "in_band py (JStr ''1'') ''5'' (Fin 5)"
    by (simp add: in_band_def above_start_def below_end_def example_eval str_eval)
  from inversion_flips_verdict[OF plain got bounds r1 r2] band
  have "f2 \<noteq> []" "f1 = []" by auto
  with r1 r2 band show ?thesis by auto
qed

text \<open>
  A value that is NaN passes the range \<^verbatim>\<open>5:\<close> and the inverted range \<^verbatim>\<open>@5:\<close> alike,
  because every comparison with it is false: both for the float NaN (\<^verbatim>\<open>json.loads\<close>
  reads the literal \<^verbatim>\<open>NaN\<close>) and for the str \<^verbatim>\<open>"nan"\<close>, which \<^verbatim>\<open>float\<close> reads as NaN.
\<close>

theorem inversion_nan_counterexample:
  "(\<exists>s. checkThreshold py (new_JsonRuleProcessor (JObj [(''metric'', JFloat NaN)]) no_args)
            ''metric'' ''metric'' ''5:'' = Inr ([], s))
   \<and> (\<exists>s. checkThreshold py (new_JsonRuleProcessor (JObj [(''metric'', JFloat NaN)]) no_args)
            ''metric'' ''metric'' ''@5:'' = Inr ([], s))
   \<and> (\<exists>s. checkThreshold py (new_JsonRuleProcessor (JObj [(''metric'', JStr ''nan'')]) no_args)
            ''metric'' ''metric'' ''5:'' = Inr ([], s))
   \<and> (\<exists>s. checkThreshold py (new_JsonRuleProcessor (JObj [(''metric'', JStr ''nan'')]) no_args)
            ''metric'' ''metric'' ''@5:'' = Inr ([], s))"
  by (simp add: example_eval get_eval str_eval rule_eval)

subsection \<open>The display mode and the verdict\<close>

lemma helper_with_field_type [simp]: "helper (with_field_type ft self) = helper self"
  by (simp add: with_field_type_def)

lemma checkThreshold_same_helper:
  assumes "helper self1 = helper self2"
    and "checkThreshold env self1 key alias r = Inr (f1, s1)"
    and "checkThreshold env self2 key alias r = Inr (f2, s2)"
  shows "(f1 = []) = (f2 = [])"
proof -
  obtain invert start end' where p: "parse_range r = (invert, start, end')"
    by (cases "parse_range r") auto
  from checkThreshold_verdict[OF assms(2) p] checkThreshold_verdict[OF assms(3) p] assms(1)
  show ?thesis by simp
qed

lemma checkThresholds_loop_step:
  assumes "checkThresholds_loop env self (t # l) fa sa = Inr out"
  obtains k r f s where "unpack2 (split_chr CHR '','' t) = Inr (k, r)"
    and "checkThreshold env self (fst (getKeyAlias k)) (snd (getKeyAlias k)) r = Inr (f, s)"
    and "checkThresholds_loop env self l (fa @ f) (sa @ s) = Inr out"
proof -
  from assms obtain x res where
    "unpack2 (split_chr CHR '','' t) = Inr x"
    "checkThreshold env self (fst (getKeyAlias (fst x))) (snd (getKeyAlias (fst x))) (snd x)
       = Inr res"
    "checkThresholds_loop env self l (fa @ fst res) (sa @ snd res) = Inr out"
    by (auto simp: bindE_Inr_iff case_prod_beta)
  then show thesis
    using that[of "fst x" "snd x" "fst res" "snd res"] by simp
qed

lemma checkThresholds_loop_same_helper:
  assumes "helper self1 = helper self2"
    and "checkThresholds_loop env self1 l fa sa = Inr (f1, s1)"
    and "checkThresholds_loop env self2 l fb sb = Inr (f2, s2)"
    and "(fa = []) = (fb = [])"
  shows "(f1 = []) = (f2 = [])"
  using assms(2-4)
proof (induction l arbitrary: fa sa fb sb)
  case Nil
  then show ?case by simp
next
  case (Cons t l)
  from Cons.prems(1) obtain k r fr1 sr1 where
    u: "unpack2 (split_chr CHR '','' t) = Inr (k, r)"
    and c1: "checkThreshold env self1 (fst (getKeyAlias k)) (snd (getKeyAlias k)) r
        = Inr (fr1, sr1)"
    and l1: "checkThresholds_loop env self1 l (fa @ fr1) (sa @ sr1) = Inr (f1, s1)"
    by (rule checkThresholds_loop_step)
  from Cons.prems(2) obtain k' r' fr2 sr2 where
    u': "unpack2 (split_chr CHR '','' t) = Inr (k', r')"
    and c2: "checkThreshold env self2 (fst (getKeyAlias k')) (snd (getKeyAlias k')) r'
        = Inr (fr2, sr2)"
    and l2: "checkThresholds_loop env self2 l (fb @ fr2) (sb @ sr2) = Inr (f2, s2)"
    by (rule checkThresholds_loop_step)
  from u u' have same: "k' = k" "r' = r" by simp_all
  have "(fr1 = []) = (fr2 = [])"
    using checkThreshold_same_helper[OF assms(1) c1] c2 same by simp
  with Cons.prems(3) have "(fa @ fr1 = []) = (fb @ fr2 = [])" by simp
  from Cons.IH[OF l1 l2 this] show ?case .
qed

lemma checkEquality_loop_step:
  assumes "checkEquality_loop env self (kv # l) fa sa = Inr out"
  obtains k v eq fa' sa' where "unpack2 (split_chr CHR '','' kv) = Inr (k, v)"
    and "equals env (helper self) (fst (getKeyAlias k)) v = Inr eq"
    and "(fa' = []) = (fa = [] \<and> eq)"
    and "checkEquality_loop env self l fa' sa' = Inr out"
proof -
  from assms obtain x r key_val eq where
    u: "unpack2 (split_chr CHR '','' kv) = Inr x"
    and e: "equals env (helper self) (fst (getKeyAlias (fst x))) (snd x) = Inr eq"
    and l: "(if eq = False
         then checkEquality_loop env self l
                (fa @ '' Value for key '' @ snd (getKeyAlias (fst x)) @ '' ('' @ key_val
                   @ '') did not match '' @ snd x @ ''.'') sa
         else checkEquality_loop env self l fa
                (sa @ '' Value for key '' @ snd (getKeyAlias (fst x)) @ '' ('' @ key_val
                   @ '') does match '' @ snd x @ ''.'')) = Inr out"
    by (auto simp: bindE_Inr_iff case_prod_beta)
  show thesis
  proof (cases eq)
    case True
    with l that[of "fst x" "snd x" eq fa] u e show ?thesis by simp
  next
    case False
    with l that[of "fst x" "snd x" eq "fa @ '' Value for key '' @ snd (getKeyAlias (fst x))
        @ '' ('' @ key_val @ '') did not match '' @ snd x @ ''.''" sa] u e
    show ?thesis by simp
  qed
qed

lemma checkEquality_loop_same_helper:
  assumes "helper self1 = helper self2"
    and "checkEquality_loop env self1 l fa sa = Inr (f1, s1)"
    and "checkEquality_loop env self2 l fb sb = Inr (f2, s2)"
    and "(fa = []) = (fb = [])"
  shows "(f1 = []) = (f2 = [])"
  using assms(2-4)
proof (induction l arbitrary: fa sa fb sb)
  case Nil
  then show ?case by simp
next
  case (Cons kv l)
  from Cons.prems(1) obtain k v eq fa' sa' where
    u: "unpack2 (split_chr CHR '','' kv) = Inr (k, v)"
    and e1: "equals env (helper self1) (fst (getKeyAlias k)) v = Inr eq"
    and a1: "(fa' = []) = (fa = [] \<and> eq)"
    and l1: "checkEquality_loop env self1 l fa' sa' = Inr (f1, s1)"
    by (rule checkEquality_loop_step)
  from Cons.prems(2) obtain k' v' eq' fb' sb' where
    u': "unpack2 (split_chr CHR '','' kv) = Inr (k', v')"
    and e2: "equals env (helper self2) (fst (getKeyAlias k')) v' = Inr eq'"
    and a2: "(fb' = []) = (fb = [] \<and> eq')"
    and l2: "checkEquality_loop env self2 l fb' sb' = Inr (f2, s2)"
    by (rule checkEquality_loop_step)
  from u u' e1 e2 assms(1) have "eq' = eq" by simp
  with a1 a2 Cons.prems(3) have "(fa' = []) = (fb' = [])" by simp
  from Cons.IH[OF l1 l2 this] show ?case .
qed

text \<open>
  C9. Two runs over the same document that differ only in the display mode
  (\<^verbatim>\<open>field_type\<close>) reach the same verdict whenever both return: a single threshold
  check, a list of threshold rules and a list of equality rules each report a failure
  in one mode exactly when they report one in the other mode. The mode enters the
  messages only.
\<close>

theorem display_mode_keeps_verdict:
  "(checkThreshold env (with_field_type ft1 self) key alias r = Inr (f1, s1)
      \<and> checkThreshold env (with_field_type ft2 self) key alias r = Inr (f2, s2)
      \<longrightarrow> (f1 = []) = (f2 = []))
   \<and> (checkThresholds env (with_field_type ft1 self) ts = Inr (g1, t1)
      \<and> checkThresholds env (with_field_type ft2 self) ts = Inr (g2, t2)
      \<longrightarrow> (g1 = []) = (g2 = []))
   \<and> (checkEquality env (with_field_type ft1 self) es = Inr (h1, u1)
      \<and> checkEquality env (with_field_type ft2 self) es = Inr (h2, u2)
      \<longrightarrow> (h1 = []) = (h2 = []))"
proof (intro conjI impI)
  have same: "helper (with_field_type ft1 self) = helper (with_field_type ft2 self)"
    by simp
  {
    assume "checkThreshold env (with_field_type ft1 self) key alias r = Inr (f1, s1)
      \<and> checkThreshold env (with_field_type ft2 self) key alias r = Inr (f2, s2)"
    then show "(f1 = []) = (f2 = [])"
      using checkThreshold_same_helper[OF same] by blast
  }
  {
    assume "checkThresholds env (with_field_type ft1 self) ts = Inr (g1, t1)
      \<and> checkThresholds env (with_field_type ft2 self) ts = Inr (g2, t2)"
    then show "(g1 = []) = (g2 = [])"
      using checkThresholds_loop_same_helper[OF same, of env ts "[]" "[]" g1 t1 "[]" "[]" g2 t2]
      by (simp add: checkThresholds_def)
  }
  {
    assume "checkEquality env (with_field_type ft1 self) es = Inr (h1, u1)
      \<and> checkEquality env (with_field_type ft2 self) es = Inr (h2, u2)"
    then show "(h1 = []) = (h2 = [])"
      using checkEquality_loop_same_helper[OF same, of env es "[]" "[]" h1 u1 "[]" "[]" h2 u2]
      by (simp add: checkEquality_def)
  }
qed

theorem display_mode_keeps_verdict_witness:
  "(\<exists>f1 s1 f2 s2.
      checkThresholds py (with_field_type ''str'' metric5_processor) [''metric,1:4''] = Inr (f1, s1)
      \<and> checkThresholds py (with_field_type ''size'' metric5_processor) [''metric,1:4'']
          = Inr (f2, s2)
      \<and> f1 \<noteq> f2 \<and> f1 \<noteq> [] \<and> f2 \<noteq> [])
   \<and> (\<exists>h1 u1 h2 u2.
      checkEquality py (with_field_type ''str'' metric5_processor) [''metric,5''] = Inr (h1, u1)
      \<and> checkEquality py (with_field_type ''SI'' metric5_processor) [''metric,5''] = Inr (h2, u2)
      \<and> u1 \<noteq> u2 \<and> h1 = [] \<and> h2 = [])"
proof -
  have t1: "checkThresholds py (with_field_type ''str'' metric5_processor) [''metric,1:4'']
      = Inr ('' Value for key metric (5) was outside the range '' @ quote @ ''1 : 4'' @ quote
             @ ''.'', [])"
    by (simp add: example_eval get_eval str_eval rule_eval)
  have t2: "checkThresholds py (with_field_type ''size'' metric5_processor) [''metric,1:4'']
      = Inr ('' Value for key metric (5 bytes) was outside the range '' @ quote
             @ ''1 bytes : 4 bytes'' @ quote @ ''.'', [])"
    by (simp add: example_eval get_eval str_eval rule_eval)
  have e1: "checkEquality py (with_field_type ''str'' metric5_processor) [''metric,5'']
      = Inr ([], '' Value for key metric (5) does match 5.'')"
    by (simp add: example_eval get_eval str_eval rule_eval)
  have e2: "checkEquality py (with_field_type ''SI'' metric5_processor) [''metric,5'']
      = Inr ([], '' Value for key metric (5B) does match 5.'')"
    by (simp add: example_eval get_eval str_eval rule_eval)
  note v = display_mode_keeps_verdict[of py "''str''" metric5_processor]
  have "('' Value for key metric (5) was outside the range '' @ quote @ ''1 : 4'' @ quote
          @ ''.'' = [])
      = ('' Value for key metric (5 bytes) was outside the range '' @ quote
          @ ''1 bytes : 4 bytes'' @ quote @ ''.'' = [])"
    using v[of _ _ _ _ _ "''size''" _ _ "[''metric,1:4'']"] t1 t2 by blast
  moreover have "(([]::string) = []) = (([]::string) = [])"
    using v[of _ _ _ _ _ "''SI''" _ _ _ _ _ _ _ "[''metric,5'']"] e1 e2 by blast
  ultimately show ?thesis
    using t1 t2 e1 e2 by (simp add: quote_def)
qed

subsection \<open>Metrics\<close>



lemma exists_not_found: "get env h key = Inr NotFound \<Longrightarrow> exists env h key = Inr False"
  by (simp add: exists_def)



subsection \<open>A search accessor at the head of a path\<close>

lemma startswith_single: "startswith (x # s) [c] = (x = c)"
  by (simp add: startswith_def)

lemma find_from_bounds: "find_from s sub i = - 1 \<or> int i \<le> find_from s sub i"
proof (induction s arbitrary: i)
  case Nil
  then show ?case by simp
next
  case (Cons a s)
  from Cons.IH[of "Suc i"] show ?case by auto
qed

lemma find_str_nonneg: "find_str s sub \<noteq> - 1 \<Longrightarrow> 0 \<le> find_str s sub"
  using find_from_bounds[of s sub 0] by (simp add: find_str_def)

lemma find_from_char: "c \<notin> set a \<Longrightarrow> find_from (a @ c # s) [c] i = int (i + length a)"
  by (induction a arbitrary: i) (auto simp: startswith_single)

lemma split_chr1_first: "c \<notin> set a \<Longrightarrow> split_chr1 c (a @ c # s) = [a, s]"
  by (induction a) auto

text \<open>
  A path that begins with \<^verbatim>\<open>(n=payload)\<close> is handed to \<^verbatim>\<open>getSubArrayElement\<close>, which
  decodes the payload before it looks at the document: when the payload is not valid
  base64, the exception of the decoder is the result of \<^verbatim>\<open>get\<close>.
\<close>

lemma get_invalid_payload:
  assumes limit: "recursion_limit env \<noteq> 0"
    and n: "CHR '')'' \<notin> set n" "CHR ''='' \<notin> set n"
    and p: "CHR '')'' \<notin> set p"
    and bad: "b64decode env p = Inl e"
  shows "get env h (CHR ''('' # n @ CHR ''='' # p @ CHR '')'' # rest) = Inl e"
proof -
  let ?key = "CHR ''('' # n @ CHR ''='' # p @ CHR '')'' # rest"
  obtain depth where depth: "recursion_limit env = Suc depth"
    using limit by (cases "recursion_limit env") auto
  have opener: "find_str ?key arrayOpener = 0"
    by (simp add: find_str_def arrayOpener_def startswith_single)
  have "find_from ((CHR ''('' # n @ CHR ''='' # p) @ CHR '')'' # rest) [CHR '')''] 0
      = int (0 + length (CHR ''('' # n @ CHR ''='' # p))"
    using n(1) p by (intro find_from_char) simp
  then have closer: "find_str ?key arrayCloser = int (length n) + int (length p) + 2"
    by (simp add: find_str_def arrayCloser_def)
  have k: "slice ?key (find_str ?key arrayOpener + 1) (find_str ?key arrayCloser)
      = n @ CHR ''='' # p"
    by (simp add: opener closer slice_def clip_def nat_add_distrib min_def)
  have "\<not> isdecimal (n @ CHR ''='' # p)"
    by (simp add: isdecimal_def is_digit_def)
  then have idx: "resolve_index env g (n @ CHR ''='' # p) d = Inl e" for g d
    using n(2) bad by (simp add: resolve_index_def split_chr1_first)
  have sub: "getSubArrayElement env g (separator h) ?key d = Inl e" for g d
    unfolding getSubArrayElement_def Let_def k by (simp add: idx)
  have r: "get_rec env h (Suc depth) ?key t = Inl e" for t
    using find_str_nonneg[of ?key "separator h"]
    by (auto simp add: opener sub Let_def simp del: find_from.simps)
  show ?thesis
    unfolding get_def depth by (rule r)
qed

subsection \<open>Exceptions in a list of rules\<close>

lemma checkThresholds_loop_raises:
  assumes "checkThresholds_loop env self pre fa sa = Inr (f, s)"
    and "unpack2 (split_chr CHR '','' rule) = Inr (k, r)"
    and "checkThreshold env self (fst (getKeyAlias k)) (snd (getKeyAlias k)) r = Inl e"
  shows "checkThresholds_loop env self (pre @ rule # post) fa sa = Inl e"
  using assms(1)
proof (induction pre arbitrary: fa sa)
  case Nil
  show ?case using assms(2,3) by (simp add: case_prod_beta)
next
  case (Cons t pre)
  from Cons.prems obtain k' r' f' s' where
    "unpack2 (split_chr CHR '','' t) = Inr (k', r')"
    "checkThreshold env self (fst (getKeyAlias k')) (snd (getKeyAlias k')) r' = Inr (f', s')"
    "checkThresholds_loop env self pre (fa @ f') (sa @ s') = Inr (f, s)"
    by (rule checkThresholds_loop_step)
  with Cons.IH[of "fa @ f'" "sa @ s'"] show ?case
    by (simp add: case_prod_beta)
qed

lemma rules_new_JsonRuleProcessor [simp]: "rules (new_JsonRuleProcessor d a) = a"
  by (simp add: new_JsonRuleProcessor_def)

lemma checkWarning_thresholds_raise:
  assumes "key_threshold_warning (rules self) = Some l" "checkThresholds env self l = Inl e"
  shows "checkWarning env self = Inl e"
  using assms by (simp add: checkWarning_def run_if_given_def)

lemma run_rules_warning_raises:
  assumes "checkWarning env (new_JsonRuleProcessor d a) = Inl e"
  shows "run_rules env d a = Inl e" "exit_code env d a = Inl e"
  using assms by (simp_all add: run_rules_def exit_code_def Let_def)

text \<open>
  C6 (amended). When resolving the path of one threshold rule raises an exception (the
  decode error of an invalid base64 payload in a search accessor is one, see
  \<open>get_invalid_payload\<close>), the exception is not confined to that rule: if the rules
  before it were evaluated, \<^verbatim>\<open>checkThresholds\<close> ends with that exception whatever rules
  follow, and so does the whole run when the list is the warning thresholds; no code and
  no text of the other rules is produced.
\<close>

theorem path_error_aborts_rule_list:
  assumes before: "checkThresholds env self pre = Inr (f, s)"
    and rule: "unpack2 (split_chr CHR '','' rule) = Inr (k, r)" "getKeyAlias k = (key, alias)"
    and raised: "get env (helper self) key = Inl e"
  shows "checkThresholds env self (pre @ rule # post) = Inl e
     \<and> (\<forall>d a. self = new_JsonRuleProcessor d a
              \<and> key_threshold_warning a = Some (pre @ rule # post)
              \<longrightarrow> run_rules env d a = Inl e \<and> exit_code env d a = Inl e)"
proof -
  have "checkThreshold env self (fst (getKeyAlias k)) (snd (getKeyAlias k)) r = Inl e"
    using rule(2) raised by (simp add: checkThreshold_get_error)
  with before rule(1) have ab: "checkThresholds env self (pre @ rule # post) = Inl e"
    unfolding checkThresholds_def by (rule checkThresholds_loop_raises)
  {
    fix d a
    assume "self = new_JsonRuleProcessor d a \<and> key_threshold_warning a = Some (pre @ rule # post)"
    then have "checkWarning env (new_JsonRuleProcessor d a) = Inl e"
      using ab checkWarning_thresholds_raise[of self "pre @ rule # post" env e] by simp
    then have "run_rules env d a = Inl e \<and> exit_code env d a = Inl e"
      using run_rules_warning_raises by blast
  }
  with ab show ?thesis by blast
qed

theorem path_error_aborts_rule_list_witness:
  "ex_b64decode ''a'' = Inl binascii_Error
   \<and> checkThresholds py
        (new_JsonRuleProcessor metric5
           (no_args\<lparr>key_threshold_warning :=
              Some ([''metric,1:5''] @ ''(name=a).x,5'' # [''metric,1:4''])\<rparr>))
        ([''metric,1:5''] @ ''(name=a).x,5'' # [''metric,1:4''])
       = Inl binascii_Error
   \<and> exit_code py metric5
        (no_args\<lparr>key_threshold_warning :=
           Some ([''metric,1:5''] @ ''(name=a).x,5'' # [''metric,1:4''])\<rparr>)
       = Inl binascii_Error"
proof -
  let ?a = "no_args\<lparr>key_threshold_warning :=
              Some ([''metric,1:5''] @ ''(name=a).x,5'' # [''metric,1:4''])\<rparr>"
  let ?p = "new_JsonRuleProcessor metric5 ?a"
  have dec: "ex_b64decode ''a'' = Inl binascii_Error"
    by (simp add: example_eval)
  obtain s where before: "checkThresholds py ?p [''metric,1:5''] = Inr ([], s)"
    by (simp add: example_eval get_eval str_eval rule_eval)
  have rule: "unpack2 (split_chr CHR '','' ''(name=a).x,5'') = Inr (''(name=a).x'', ''5'')"
    "getKeyAlias ''(name=a).x'' = (''(name=a).x'', ''(name=a).x'')"
    by (simp_all add: unpack2_def getKeyAlias_def)
  have raised: "get py (helper ?p) ''(name=a).x'' = Inl binascii_Error"
    by (simp add: example_eval get_eval str_eval)
  note ab = path_error_aborts_rule_list[OF before rule raised, of "[''metric,1:4'']"]
  have "key_threshold_warning ?a = Some ([''metric,1:5''] @ ''(name=a).x,5'' # [''metric,1:4''])"
    by simp
  with ab dec show ?thesis
    by blast
qed

text \<open>
  The rule after the one with the invalid payload would report a failure (5 is outside
  \<^verbatim>\<open>1:4\<close>) and make the run end with WARNING; instead the run ends with the decode
  error, and without that rule the same list is evaluated to the end.
\<close>

theorem decode_error_not_confined_counterexample:
  "exit_code py metric5 (no_args\<lparr>key_threshold_warning := Some [''(name=a).x,5'', ''metric,1:4'']\<rparr>)
     = Inl binascii_Error
   \<and> exit_code py metric5 (no_args\<lparr>key_threshold_warning := Some [''metric,1:4'']\<rparr>)
     = Inr WARNING_CODE"
  by (simp add: exit_code_def run_rules_def checkWarning_def checkCritical_def checkMetrics_def
      run_if_given_def getCode_def append_warning_def append_critical_def append_metrics_def
      new_NagiosHelper_def WARNING_CODE_def OK_CODE_def CRITICAL_CODE_def UNKNOWN_CODE_def
      example_eval get_eval str_eval rule_eval)

subsection \<open>Malformed rules\<close>

lemma unpack2_not_two: "length parts \<noteq> 2 \<Longrightarrow> unpack2 parts = Inl ValueError"
  by (auto simp: unpack2_def split: list.splits)

lemma checkThresholds_loop_prefix:
  assumes "checkThresholds_loop env self pre fa sa = Inr (f, s)"
  shows "checkThresholds_loop env self (pre @ post) fa sa = checkThresholds_loop env self post f s"
  using assms
proof (induction pre arbitrary: fa sa)
  case Nil
  then show ?case by simp
next
  case (Cons t pre)
  from Cons.prems obtain k' r' f' s' where
    "unpack2 (split_chr CHR '','' t) = Inr (k', r')"
    "checkThreshold env self (fst (getKeyAlias k')) (snd (getKeyAlias k')) r' = Inr (f', s')"
    "checkThresholds_loop env self pre (fa @ f') (sa @ s') = Inr (f, s)"
    by (rule checkThresholds_loop_step)
  with Cons.IH[of "fa @ f'" "sa @ s'"] show ?case
    by (simp add: case_prod_beta)
qed

lemma checkEquality_loop_prefix:
  assumes "checkEquality_loop env self pre fa sa = Inr (f, s)"
  shows "checkEquality_loop env self (pre @ post) fa sa = checkEquality_loop env self post f s"
  using assms
proof (induction pre arbitrary: fa sa)
  case Nil
  then show ?case by simp
next
  case (Cons t pre)
  show ?case
  proof (cases "unpack2 (split_chr CHR '','' t)")
    case (Inl e)
    with Cons.prems show ?thesis by simp
  next
    case u: (Inr x)
    show ?thesis
    proof (cases "get env (helper self) (fst (getKeyAlias (fst x)))")
      case (Inl e)
      with u Cons.prems show ?thesis by (simp add: case_prod_beta)
    next
      case g: (Inr v)
      show ?thesis
      proof (cases "TypeHelper env v (field_type (rules self))")
        case (Inl e)
        with u g Cons.prems show ?thesis by (simp add: case_prod_beta)
      next
        case t: (Inr key_val)
        show ?thesis
        proof (cases "equals env (helper self) (fst (getKeyAlias (fst x))) (snd x)")
          case (Inl e)
          with u g t Cons.prems show ?thesis by (simp add: case_prod_beta)
        next
          case (Inr eq)
          with u g t Cons.prems Cons.IH show ?thesis
            by (cases eq) (simp_all add: case_prod_beta)
        qed
      qed
    qed
  qed
qed

lemma check_range_bad_start:
  assumes "get env h key = Inr (Found v)" "py_float env v = Inr x"
    and "start \<noteq> JStr ''~''" "py_float env start = Inl e"
  shows "check_range env h th key shown invert start end' = Inl e"
  using assms
  by (cases invert)
     (simp_all add: check_range_def comparison_defs compare_key_value andE_simps orE_simps
        if_elif_else_simps Let_def)

lemma check_range_bad_end:
  assumes "get env h key = Inr (Found v)" "py_float env v = Inr x"
    and "float_of_str env end' = None"
    and "\<not> (start \<noteq> JStr ''~'' \<and> end' = ''infinity'')"
    and "above_start env start x"
  shows "check_range env h th key shown invert start end' = Inl ValueError"
proof (cases "start = JStr ''~''")
  case True
  with assms show ?thesis
    by (cases invert)
       (simp_all add: check_range_def comparison_defs compare_key_value andE_simps orE_simps
          if_elif_else_simps Let_def)
next
  case False
  with assms(5) obtain lo where lo: "py_float env start = Inr lo" "float_le lo x"
    by (auto simp: above_start_def split: sum.splits)
  then have "\<not> float_lt x lo"
    by (cases lo; cases x) auto
  with False lo assms(1-4) show ?thesis
    by (cases invert)
       (simp_all add: check_range_def comparison_defs compare_key_value andE_simps orE_simps
          if_elif_else_simps Let_def)
qed

text \<open>
  C7 (amended). What the engine does with a malformed rule.
  \<^item> A threshold rule or an equality rule whose text does not split at the commas into
    exactly two parts raises \<^verbatim>\<open>ValueError\<close> (once the rules before it have been
    evaluated); nothing catches it.
  \<^item> When the key resolves to a number whose formatting for display returns (it always
    returns in the default mode \<^verbatim>\<open>'str'\<close>): a lower bound that is no number raises the
    error of its conversion; an upper bound that is no number raises \<^verbatim>\<open>ValueError\<close>
    whenever the number is not below the lower bound. (In the other cases the
    comparison with the bound is never evaluated.)
  \<^item> A metric whose number of parts is not 1, 2, 4 or 6 is no error: the whole text is
    taken as the key, and when that key does not resolve the metric adds a blank to the
    metrics text and nothing else.
\<close>

theorem malformed_rules:
  "(checkThresholds env self pre = Inr (f, s) \<and> length (split_chr CHR '','' rule) \<noteq> 2
      \<longrightarrow> checkThresholds env self (pre @ rule # post) = Inl ValueError)
   \<and> (checkEquality env self pre = Inr (f, s) \<and> length (split_chr CHR '','' rule) \<noteq> 2
      \<longrightarrow> checkEquality env self (pre @ rule # post) = Inl ValueError)
   \<and> (get env (helper self) key = Inr (Found v) \<and> py_float env v = Inr x
      \<and> TypeHelper env (Found v) (field_type (rules self)) = Inr shown
      \<and> parse_range r = (invert, start, end')
      \<and> start \<noteq> JStr ''~'' \<and> py_float env start = Inl e
      \<longrightarrow> checkThreshold env self key alias r = Inl e)
   \<and> (get env (helper self) key = Inr (Found v) \<and> py_float env v = Inr x
      \<and> TypeHelper env (Found v) (field_type (rules self)) = Inr shown
      \<and> parse_range r = (invert, start, end')
      \<and> float_of_str env end' = None \<and> \<not> (start \<noteq> JStr ''~'' \<and> end' = ''infinity'')
      \<and> above_start env start x
      \<longrightarrow> checkThreshold env self key alias r = Inl ValueError)
   \<and> (length (split_chr CHR '','' metric) \<notin> {1, 2, 4, 6}
      \<and> get env (helper self) (fst (getKeyAlias metric)) = Inr NotFound
      \<longrightarrow> parse_metric metric = (metric, [], None, None, None, None)
        \<and> checkMetrics_loop env self (metric # rest) (ms, w, c)
          = checkMetrics_loop env self rest (ms @ '' '', w, c))"
proof (intro conjI impI)
  assume a: "checkThresholds env self pre = Inr (f, s) \<and> length (split_chr CHR '','' rule) \<noteq> 2"
  then have "checkThresholds_loop env self (pre @ rule # post) [] []
      = checkThresholds_loop env self (rule # post) f s"
    using checkThresholds_loop_prefix[of env self pre "[]" "[]" f s] by (simp add: checkThresholds_def)
  with a show "checkThresholds env self (pre @ rule # post) = Inl ValueError"
    by (simp add: checkThresholds_def unpack2_not_two)
next
  assume a: "checkEquality env self pre = Inr (f, s) \<and> length (split_chr CHR '','' rule) \<noteq> 2"
  then have "checkEquality_loop env self (pre @ rule # post) [] []
      = checkEquality_loop env self (rule # post) f s"
    using checkEquality_loop_prefix[of env self pre "[]" "[]" f s] by (simp add: checkEquality_def)
  with a show "checkEquality env self (pre @ rule # post) = Inl ValueError"
    by (simp add: checkEquality_def unpack2_not_two)
next
  assume "get env (helper self) key = Inr (Found v) \<and> py_float env v = Inr x
      \<and> TypeHelper env (Found v) (field_type (rules self)) = Inr shown
      \<and> parse_range r = (invert, start, end')
      \<and> start \<noteq> JStr ''~'' \<and> py_float env start = Inl e"
  then show "checkThreshold env self key alias r = Inl e"
    by (simp add: checkThreshold_def check_range_bad_start)
next
  assume "get env (helper self) key = Inr (Found v) \<and> py_float env v = Inr x
      \<and> TypeHelper env (Found v) (field_type (rules self)) = Inr shown
      \<and> parse_range r = (invert, start, end')
      \<and> float_of_str env end' = None \<and> \<not> (start \<noteq> JStr ''~'' \<and> end' = ''infinity'')
      \<and> above_start env start x"
  then show "checkThreshold env self key alias r = Inl ValueError"
    by (simp add: checkThreshold_def check_range_bad_end)
next
  assume a: "length (split_chr CHR '','' metric) \<notin> {1, 2, 4, 6}
      \<and> get env (helper self) (fst (getKeyAlias metric)) = Inr NotFound"
  then show p: "parse_metric metric = (metric, [], None, None, None, None)"
    by (auto simp: parse_metric_def split: list.splits)
  from a show "checkMetrics_loop env self (metric # rest) (ms, w, c)
      = checkMetrics_loop env self rest (ms @ '' '', w, c)"
    by (simp add: metric_step_def p exists_not_found case_prod_beta)
qed

lemmas run_eval = exit_code_def run_rules_def checkWarning_def checkCritical_def checkMetrics_def
  run_if_given_def getCode_def append_warning_def append_critical_def append_metrics_def
  new_NagiosHelper_def WARNING_CODE_def OK_CODE_def CRITICAL_CODE_def UNKNOWN_CODE_def
  metric_step_def metric_range_def parse_metric_def

theorem malformed_rules_witness:
  "checkThresholds py metric5_processor ([''metric,1:5''] @ ''metric'' # [''metric,1:4''])
     = Inl ValueError
   \<and> checkEquality py metric5_processor ([] @ ''metric'' # [''metric,5'']) = Inl ValueError
   \<and> checkThreshold py metric5_processor ''metric'' ''metric'' ''abc:5'' = Inl ValueError
   \<and> checkThreshold py metric5_processor ''metric'' ''metric'' ''1:abc'' = Inl ValueError
   \<and> checkMetrics_loop py metric5_processor (''metric,s,1:4'' # []) ([], [], [])
     = checkMetrics_loop py metric5_processor [] ([] @ '' '', [], [])"
proof -
  note m = malformed_rules[where env = py and self = metric5_processor]
  obtain s where pre: "checkThresholds py metric5_processor [''metric,1:5''] = Inr ([], s)"
    by (simp add: example_eval get_eval str_eval rule_eval)
  have len: "length (split_chr CHR '','' ''metric'') \<noteq> 2"
    by simp
  have a: "checkThresholds py metric5_processor ([''metric,1:5''] @ ''metric'' # [''metric,1:4''])
     = Inl ValueError"
    using m[where pre = "[''metric,1:5'']" and rule = "''metric''" and f = "[]" and s = s] pre len
    by blast
  have pre': "checkEquality py metric5_processor [] = Inr ([], [])"
    by (simp add: checkEquality_def)
  have b: "checkEquality py metric5_processor ([] @ ''metric'' # [''metric,5'']) = Inl ValueError"
    using m[where pre = "[]" and rule = "''metric''" and f = "[]" and s = "[]"] pre' len
    by blast
  have got: "get py (helper metric5_processor) ''metric'' = Inr (Found (JInt 5))"
    "py_float py (JInt 5) = Inr (Fin 5)"
    "TypeHelper py (Found (JInt 5)) (field_type (rules metric5_processor)) = Inr ''5''"
    by (simp_all add: example_eval get_eval str_eval rule_eval)
  have bad_start: "parse_range ''abc:5'' = (False, JStr ''abc'', ''5'')"
    "JStr ''abc'' \<noteq> JStr ''~''" "py_float py (JStr ''abc'') = Inl ValueError"
    by (simp_all add: parse_range_def example_eval str_eval)
  have c: "checkThreshold py metric5_processor ''metric'' ''metric'' ''abc:5'' = Inl ValueError"
    using m[where key = "''metric''" and v = "JInt 5" and x = "Fin 5" and shown = "''5''"
        and r = "''abc:5''" and invert = False and start = "JStr ''abc''" and end' = "''5''"
        and e = ValueError] got bad_start
    by blast
  have bad_end: "parse_range ''1:abc'' = (False, JStr ''1'', ''abc'')"
    "float_of_str py ''abc'' = None" "\<not> (JStr ''1'' \<noteq> JStr ''~'' \<and> ''abc'' = ''infinity'')"
    "above_start py (JStr ''1'') (Fin 5)"
    by (simp_all add: parse_range_def above_start_def example_eval str_eval)
  have d: "checkThreshold py metric5_processor ''metric'' ''metric'' ''1:abc'' = Inl ValueError"
    using m[where key = "''metric''" and v = "JInt 5" and x = "Fin 5" and shown = "''5''"
        and r = "''1:abc''" and invert = False and start = "JStr ''1''" and end' = "''abc''"]
      got bad_end
    by blast
  have three: "length (split_chr CHR '','' ''metric,s,1:4'') \<notin> {1, 2, 4, 6}"
    "get py (helper metric5_processor) (fst (getKeyAlias ''metric,s,1:4'')) = Inr NotFound"
    by (simp_all add: getKeyAlias_def example_eval get_eval str_eval)
  have e: "checkMetrics_loop py metric5_processor (''metric,s,1:4'' # []) ([], [], [])
     = checkMetrics_loop py metric5_processor [] ([] @ '' '', [], [])"
    using m[where metric = "''metric,s,1:4''" and rest = "[]" and ms = "[]" and w = "[]"
        and c = "[]"] three
    by blast
  from a b c d e show ?thesis by blast
qed

text \<open>
  Three malformed rules that pass in silence, each on the document \<^verbatim>\<open>{"metric": 5}\<close>:
  a metric of three parts, whose range \<^verbatim>\<open>1:4\<close> would not hold for 5; an inverted range
  with the upper bound \<^verbatim>\<open>abc\<close>, never compared because 5 is below the lower bound 7;
  and a range \<^verbatim>\<open>abc\<close> on a key that does not resolve. Each run ends with OK.
\<close>

theorem malformed_rules_counterexample:
  "exit_code py metric5 (no_args\<lparr>metric_list := Some [''metric,s,1:4'']\<rparr>) = Inr OK_CODE
   \<and> float_of_str py ''abc'' = None
   \<and> exit_code py metric5 (no_args\<lparr>key_threshold_critical := Some [''metric,@7:abc'']\<rparr>)
       = Inr OK_CODE
   \<and> exit_code py metric5 (no_args\<lparr>key_threshold_critical := Some [''nothere,abc'']\<rparr>)
       = Inr OK_CODE"
  by (simp add: run_eval example_eval get_eval str_eval rule_eval)

subsection \<open>Path resolution\<close>

text \<open>
  The mechanism behind the first example below: \<^verbatim>\<open>get\<close> cannot tell a falsy node from
  the default \<^verbatim>\<open>temp_data=''\<close>, so that resolving a key against a falsy node is
  resolving it against the whole document.
\<close>

lemma get_rec_falsy:
  "\<not> truthy t \<Longrightarrow> get_rec env self depth key t = get_rec env self depth key (data self)"
proof (cases depth)
  case 0
  then show ?thesis by simp
next
  case (Suc n)
  assume "\<not> truthy t"
  then show ?thesis
    by (cases "truthy (data self)") (simp_all add: Suc)
qed

text \<open>
  C1. A path that addresses a leaf should resolve to that leaf, and a path that addresses
  no node to \<^verbatim>\<open>(None, 'not_found')\<close>, also across falsy nodes. The code does neither
  at a falsy node. In \<^verbatim>\<open>{"a": {}, "b": 1}\<close> the path \<^verbatim>\<open>a.b\<close> addresses nothing, and
  \<^verbatim>\<open>get\<close> returns 1, the value of the top-level \<^verbatim>\<open>b\<close>. In \<^verbatim>\<open>{"a": [0]}\<close> the path
  \<^verbatim>\<open>a(0)\<close> addresses the leaf 0, and \<^verbatim>\<open>get\<close> returns the whole document.
\<close>

theorem get_restarts_at_falsy_node:
  "get py \<lparr>data = JObj [(''a'', JObj []), (''b'', JInt 1)], separator = ''.''\<rparr> ''a.b''
     = Inr (Found (JInt 1))
   \<and> get py \<lparr>data = JObj [(''a'', JArr [JInt 0])], separator = ''.''\<rparr> ''a(0)''
     = Inr (Found (JObj [(''a'', JArr [JInt 0])]))"
  by (simp add: example_eval get_eval str_eval)

text \<open>
  C2. After an accessor the resolution should go on with the text that follows the
  accessor's own \<^verbatim>\<open>")"\<close>. The code looks for the first \<^verbatim>\<open>")" + separator\<close> of the
  whole key instead: for \<^verbatim>\<open>(0)(1).c\<close> it goes on with \<^verbatim>\<open>c\<close>, and the accessor
  \<^verbatim>\<open>(1)\<close> is dropped. In \<^verbatim>\<open>[[{"c": 1}, {"c": 2}]]\<close> the path resolves to
  \<^verbatim>\<open>(None, 'not_found')\<close>, while the same path with a separator between the
  accessors, \<^verbatim>\<open>(0).(1).c\<close>, resolves to 2.
\<close>

theorem remaining_key_drops_accessor:
  "remaining_key ''.'' ''(0)(1).c'' = ''c''
   \<and> get py \<lparr>data = JArr [JArr [JObj [(''c'', JInt 1)], JObj [(''c'', JInt 2)]]],
              separator = ''.''\<rparr> ''(0)(1).c''
     = Inr NotFound
   \<and> get py \<lparr>data = JArr [JArr [JObj [(''c'', JInt 1)], JObj [(''c'', JInt 2)]]],
              separator = ''.''\<rparr> ''(0).(1).c''
     = Inr (Found (JInt 2))"
  by (simp add: example_eval get_eval str_eval)

end
